theory Spec2Isabelle
  imports Main
begin

section \<open>Values, messages and the outside world\<close>

text \<open>
  The program is \<^verbatim>\<open>1_foundations/Carbaz/app.py\<close>. Python values that
  travel through it are JSON-like data (what \<^verbatim>\<open>json.loads\<close> yields and
  what the handlers return) or opaque objects. A dict is an association list in
  insertion order; Python keeps its keys distinct. JSON numbers are modelled for integers.
\<close>

datatype pyval =
    PNone
  | PBool bool
  | PInt int
  | PStr string
  | PList "pyval list"
  | PDict "(string \<times> pyval) list"
  | PObj string

text \<open>Every exception the program can meet is a value.\<close>

datatype error =
    JSONDecodeError
  | TypeError
  | IndexError
  | RequestException
  | APIError

text \<open>The data of one call of \<^verbatim>\<open>requests.post\<close>.\<close>

record http_request =
  url :: string
  data :: "(string \<times> pyval) list"

text \<open>
  The completion API's response, as far as \<^verbatim>\<open>chat\<close> reads it:
  \<^verbatim>\<open>tool_call.id\<close>, \<^verbatim>\<open>tool_call.function.name\<close>,
  \<^verbatim>\<open>tool_call.function.arguments\<close>, \<^verbatim>\<open>message.content\<close>,
  \<^verbatim>\<open>message.tool_calls\<close>, \<^verbatim>\<open>choice.finish_reason\<close>,
  \<^verbatim>\<open>choice.message\<close>, \<^verbatim>\<open>response.choices\<close>.
\<close>

record tool_call =
  call_id :: string
  function_name :: string
  function_arguments :: string

record chat_message =
  content :: "string option"
  tool_calls :: "tool_call list option"

record choice =
  finish_reason :: string
  message :: chat_message

record response =
  choices :: "choice list"

text \<open>
  An element of the \<^verbatim>\<open>messages\<close> list is a dict (system, user, history and
  tool messages) or the message object of a response, appended as it is.
\<close>

datatype msg = MDict "(string \<times> pyval) list" | MObj chat_message

record completion_request =
  req_model :: string
  req_messages :: "msg list"
  req_tools :: pyval

text \<open>
  The effects of the program are logged in the world: the outbound calls of
  \<^verbatim>\<open>push\<close>, the lines printed, and the completion requests issued.
\<close>

record world =
  posts :: "http_request list"
  stdout :: "string list"
  requests :: "completion_request list"

text \<open>
  What a global name of the module is bound to: one of its three functions, its class, a
  callable it imports, a module, or plain data.
\<close>

datatype pyobject =
    FnPush
  | FnRecordUserDetails
  | FnRecordUnknownQuestion
  | ClassMe
  | Imported string
  | Module string
  | Data pyval

text \<open>
  The libraries and services the program calls are parameters: \<^verbatim>\<open>json.loads\<close>,
  the string escaping of \<^verbatim>\<open>json.dumps\<close>, \<^verbatim>\<open>str()\<close> on values that
  are not strings, \<^verbatim>\<open>os.getenv\<close>, \<^verbatim>\<open>requests.post\<close> (an exception or
  the status of the HTTP response), the completion API and the other imported callables.
  The remote ones may depend on all that happened before. A parameter too is what the
  interpreter decides when it loads the module: the values of \<^verbatim>\<open>__name__\<close> and
  \<^verbatim>\<open>__file__\<close>, and the further entries it puts into the module's namespace
  according to the way the module is run (\<^verbatim>\<open>__spec__\<close>,
  \<^verbatim>\<open>__package__\<close>, \<^verbatim>\<open>__cached__\<close>, \<^verbatim>\<open>__annotations__\<close>).
\<close>

record env =
  loads :: "string \<Rightarrow> error + pyval"
  encode_basestring :: "string \<Rightarrow> string"
  str_of :: "pyval \<Rightarrow> string"
  getenv :: "string \<Rightarrow> string option"
  post :: "world \<Rightarrow> http_request \<Rightarrow> error + nat"
  create :: "world \<Rightarrow> completion_request \<Rightarrow> error + response"
  call_imported :: "world \<Rightarrow> string \<Rightarrow> (string \<times> pyval) list \<Rightarrow> error + pyval"
  name_of_module :: string
  file_of_module :: string
  interpreter_globals :: "(string \<times> pyobject) list"

section \<open>Serialisation and formatting\<close>

text \<open>\<^verbatim>\<open>sep.join(xs)\<close>.\<close>

fun join :: "string \<Rightarrow> string list \<Rightarrow> string" where
  "join sep [] = []"
| "join sep [x] = x"
| "join sep (x # y # ys) = x @ sep @ join sep (y # ys)"

text \<open>
  \<^verbatim>\<open>json.dumps(result)\<close> with its default separators; \<open>None\<close> is the TypeError
  for an object that is not JSON serialisable.
\<close>

fun dumps :: "env \<Rightarrow> pyval \<Rightarrow> string option"
  and dumps_items :: "env \<Rightarrow> pyval list \<Rightarrow> string list option"
  and dumps_pairs :: "env \<Rightarrow> (string \<times> pyval) list \<Rightarrow> string list option" where
  "dumps e PNone = Some ''null''"
| "dumps e (PBool b) = Some (if b then ''true'' else ''false'')"
| "dumps e (PInt i) = Some (str_of e (PInt i))"
| "dumps e (PStr s) = Some (encode_basestring e s)"
| "dumps e (PList xs) =
     (case dumps_items e xs of None \<Rightarrow> None
      | Some ss \<Rightarrow> Some (''['' @ join '', '' ss @ '']''))"
| "dumps e (PDict kvs) =
     (case dumps_pairs e kvs of None \<Rightarrow> None
      | Some ss \<Rightarrow> Some (''{'' @ join '', '' ss @ ''}''))"
| "dumps e (PObj c) = None"
| "dumps_items e [] = Some []"
| "dumps_items e (x # xs) =
     (case dumps e x of None \<Rightarrow> None
      | Some s \<Rightarrow> (case dumps_items e xs of None \<Rightarrow> None | Some ss \<Rightarrow> Some (s # ss)))"
| "dumps_pairs e [] = Some []"
| "dumps_pairs e (kv # kvs) =
     (case dumps e (snd kv) of None \<Rightarrow> None
      | Some s \<Rightarrow> (case dumps_pairs e kvs of None \<Rightarrow> None
          | Some ss \<Rightarrow> Some ((encode_basestring e (fst kv) @ '': '' @ s) # ss)))"

text \<open>A replacement field \<^verbatim>\<open>{x}\<close> of an f-string: a string as it is, else \<^verbatim>\<open>str(x)\<close>.\<close>

definition format_value :: "env \<Rightarrow> pyval \<Rightarrow> string" where
  "format_value e v = (case v of PStr s \<Rightarrow> s | _ \<Rightarrow> str_of e v)"

section \<open>The notifier and the two tools\<close>

definition getenv_value :: "env \<Rightarrow> string \<Rightarrow> pyval" where
  "getenv_value e k = (case getenv e k of None \<Rightarrow> PNone | Some s \<Rightarrow> PStr s)"

text \<open>The arguments \<^verbatim>\<open>push(text)\<close> gives to \<^verbatim>\<open>post\<close>.\<close>

definition pushover_request :: "env \<Rightarrow> pyval \<Rightarrow> http_request" where
  "pushover_request e text =
     \<lparr>url = ''https://api.pushover.net/1/messages.json'',
      data = [(''user'', getenv_value e ''PUSHOVER_USER''),
              (''token'', getenv_value e ''PUSHOVER_TOKEN''),
              (''message'', text)]\<rparr>"

text \<open>
  \<^verbatim>\<open>push(text)\<close>: one call of \<^verbatim>\<open>post\<close>; its response is dropped, an
  exception it raises is not caught. Returns \<^verbatim>\<open>None\<close>.
\<close>

definition push :: "env \<Rightarrow> pyval \<Rightarrow> world \<Rightarrow> world \<times> (error + pyval)" where
  "push e text w =
     (case post e w (pushover_request e text) of
        Inl err \<Rightarrow> (w\<lparr>posts := posts w @ [pushover_request e text]\<rparr>, Inl err)
      | Inr status \<Rightarrow> (w\<lparr>posts := posts w @ [pushover_request e text]\<rparr>, Inr PNone))"

definition record_user_details ::
    "env \<Rightarrow> pyval \<Rightarrow> pyval \<Rightarrow> pyval \<Rightarrow> world \<Rightarrow> world \<times> (error + pyval)" where
  "record_user_details e email name' notes w =
     (case push e (PStr (''Recording '' @ format_value e name' @ '' with email '' @
                         format_value e email @ '' and notes '' @ format_value e notes)) w of
        (w', Inl err) \<Rightarrow> (w', Inl err)
      | (w', Inr r) \<Rightarrow> (w', Inr (PDict [(''recorded'', PStr ''ok'')])))"

definition record_unknown_question ::
    "env \<Rightarrow> pyval \<Rightarrow> world \<Rightarrow> world \<times> (error + pyval)" where
  "record_unknown_question e question w =
     (case push e (PStr (''Recording '' @ format_value e question)) w of
        (w', Inl err) \<Rightarrow> (w', Inl err)
      | (w', Inr r) \<Rightarrow> (w', Inr (PDict [(''recorded'', PStr ''ok'')])))"

text \<open>The tool schemas and the list \<^verbatim>\<open>tools\<close> sent with every completion request.\<close>

definition record_user_details_json :: pyval where
  "record_user_details_json = PDict
     [(''name'', PStr ''record_user_details''),
      (''description'', PStr (''Use this tool to record that a user is interested in being'' @
                              '' in touch and provided an email address'')),
      (''parameters'', PDict
         [(''type'', PStr ''object''),
          (''properties'', PDict
             [(''email'', PDict
                 [(''type'', PStr ''string''),
                  (''description'', PStr ''The email address of this user'')]),
              (''name'', PDict
                 [(''type'', PStr ''string''),
                  (''description'', PStr ''The user's name, if they provided it'')]),
              (''notes'', PDict
                 [(''type'', PStr ''string''),
                  (''description'', PStr (''Any additional information about the conversation'' @
                                          '' that's worth recording to give context''))])]),
          (''required'', PList [PStr ''email'']),
          (''additionalProperties'', PBool False)])]"

definition record_unknown_question_json :: pyval where
  "record_unknown_question_json = PDict
     [(''name'', PStr ''record_unknown_question''),
      (''description'', PStr (''Always use this tool to record any question that couldn't be'' @
                              '' answered as you didn't know the answer'')),
      (''parameters'', PDict
         [(''type'', PStr ''object''),
          (''properties'', PDict
             [(''question'', PDict
                 [(''type'', PStr ''string''),
                  (''description'', PStr ''The question that couldn't be answered'')])]),
          (''required'', PList [PStr ''question'']),
          (''additionalProperties'', PBool False)])]"

definition tools :: pyval where
  "tools = PList [PDict [(''type'', PStr ''function''), (''function'', record_user_details_json)],
                  PDict [(''type'', PStr ''function''), (''function'', record_unknown_question_json)]]"

text \<open>The names of the tools the list \<^verbatim>\<open>tools\<close> declares: the tool registry.\<close>

fun schema_name :: "pyval \<Rightarrow> string list" where
  "schema_name (PDict kvs) =
     (case map_of kvs ''function'' of
        Some (PDict f) \<Rightarrow> (case map_of f ''name'' of Some (PStr n) \<Rightarrow> [n] | _ \<Rightarrow> [])
      | _ \<Rightarrow> [])"
| "schema_name v = []"

definition registry_names :: "string list" where
  "registry_names = (case tools of PList ts \<Rightarrow> concat (map schema_name ts) | _ \<Rightarrow> [])"

section \<open>The module's global symbol table\<close>

text \<open>The test \<^verbatim>\<open>__name__ == "__main__"\<close> at the end of the module.\<close>

definition run_as_main :: "env \<Rightarrow> bool" where
  "run_as_main e = (name_of_module e = ''__main__'')"

text \<open>
  The dict \<^verbatim>\<open>globals()\<close> when \<^verbatim>\<open>handle_tool_call\<close> runs. First the
  entries every module loaded from a file has: its name, its docstring (the first line of
  the file), its file, the builtins and its loader. Then the names the module's text
  binds, in the order it binds them; the last three of them exist when the file runs as
  \<^verbatim>\<open>__main__\<close>, which is how it starts the chat interface. Last the entries
  that depend on the way the module is run.
\<close>

definition py_globals :: "env \<Rightarrow> (string \<times> pyobject) list" where
  "py_globals e =
     [(''__name__'', Data (PStr (name_of_module e))),
      (''__doc__'', Data (PStr ''Interactive AI Resume and CV chatbot..'')),
      (''__file__'', Data (PStr (file_of_module e))),
      (''__builtins__'', Module ''builtins''),
      (''__loader__'', Data (PObj ''SourceFileLoader'')),
      (''json'', Module ''json''),
      (''os'', Module ''os''),
      (''load_dotenv'', Imported ''load_dotenv''),
      (''ChatInterface'', Imported ''ChatInterface''),
      (''OpenAI'', Imported ''OpenAI''),
      (''PdfReader'', Imported ''PdfReader''),
      (''post'', Imported ''post''),
      (''push'', FnPush),
      (''record_user_details'', FnRecordUserDetails),
      (''record_unknown_question'', FnRecordUnknownQuestion),
      (''record_user_details_json'', Data record_user_details_json),
      (''record_unknown_question_json'', Data record_unknown_question_json),
      (''tools'', Data tools),
      (''Me'', ClassMe)] @
     (if run_as_main e then
        [(''name'', Data (PStr ''Carlos Bazaga'')),
         (''cv_pdf'', Data (PStr ''me/linkedin.pdf'')),
         (''summary_txt'', Data (PStr ''me/summary.txt''))]
      else []) @
     interpreter_globals e"

text \<open>\<^verbatim>\<open>globals().get(tool_name)\<close>.\<close>

definition globals_get :: "env \<Rightarrow> string \<Rightarrow> pyobject option" where
  "globals_get e n = map_of (py_globals e) n"

text \<open>Truth value testing, as in \<^verbatim>\<open>if tool\<close>.\<close>

fun truthy_value :: "pyval \<Rightarrow> bool" where
  "truthy_value PNone = False"
| "truthy_value (PBool b) = b"
| "truthy_value (PInt i) = (i \<noteq> 0)"
| "truthy_value (PStr s) = (s \<noteq> [])"
| "truthy_value (PList xs) = (xs \<noteq> [])"
| "truthy_value (PDict kvs) = (kvs \<noteq> [])"
| "truthy_value (PObj c) = True"

fun truthy :: "pyobject \<Rightarrow> bool" where
  "truthy (Data v) = truthy_value v"
| "truthy obj = True"

text \<open>The test \<^verbatim>\<open>if tool\<close> fails: the name is not bound, or bound to a false object.\<close>

definition no_tool :: "env \<Rightarrow> string \<Rightarrow> bool" where
  "no_tool e n = (case globals_get e n of None \<Rightarrow> True | Some tool \<Rightarrow> \<not> truthy tool)"

section \<open>Calling a global object with keyword arguments\<close>

text \<open>A keyword that is no parameter of the function called is a TypeError.\<close>

definition unexpected_keyword :: "string list \<Rightarrow> (string \<times> pyval) list \<Rightarrow> bool" where
  "unexpected_keyword params kwargs = list_ex (\<lambda>k. k \<notin> set params) (map fst kwargs)"

definition call_push :: "env \<Rightarrow> (string \<times> pyval) list \<Rightarrow> world \<Rightarrow> world \<times> (error + pyval)" where
  "call_push e kwargs w =
     (if unexpected_keyword [''text''] kwargs then (w, Inl TypeError)
      else case map_of kwargs ''text'' of
             None \<Rightarrow> (w, Inl TypeError)
           | Some text \<Rightarrow> push e text w)"

definition call_record_user_details ::
    "env \<Rightarrow> (string \<times> pyval) list \<Rightarrow> world \<Rightarrow> world \<times> (error + pyval)" where
  "call_record_user_details e kwargs w =
     (if unexpected_keyword [''email'', ''name'', ''notes''] kwargs then (w, Inl TypeError)
      else case map_of kwargs ''email'' of
             None \<Rightarrow> (w, Inl TypeError)
           | Some email \<Rightarrow>
               record_user_details e email
                 (case map_of kwargs ''name'' of None \<Rightarrow> PStr ''Name not provided'' | Some v \<Rightarrow> v)
                 (case map_of kwargs ''notes'' of None \<Rightarrow> PStr ''not provided'' | Some v \<Rightarrow> v)
                 w)"

definition call_record_unknown_question ::
    "env \<Rightarrow> (string \<times> pyval) list \<Rightarrow> world \<Rightarrow> world \<times> (error + pyval)" where
  "call_record_unknown_question e kwargs w =
     (if unexpected_keyword [''question''] kwargs then (w, Inl TypeError)
      else case map_of kwargs ''question'' of
             None \<Rightarrow> (w, Inl TypeError)
           | Some question \<Rightarrow> record_unknown_question e question w)"

text \<open>
  \<^verbatim>\<open>Me(**kwargs)\<close>: the constructor takes \<^verbatim>\<open>name\<close>,
  \<^verbatim>\<open>cv_pdf_path\<close> and \<^verbatim>\<open>summary_path\<close>; its body builds the API client
  and reads the two documents, which is the environment's part.
\<close>

definition call_Me :: "env \<Rightarrow> (string \<times> pyval) list \<Rightarrow> world \<Rightarrow> world \<times> (error + pyval)" where
  "call_Me e kwargs w =
     (if unexpected_keyword [''name'', ''cv_pdf_path'', ''summary_path''] kwargs
         \<or> list_ex (\<lambda>p. map_of kwargs p = None) [''name'', ''cv_pdf_path'', ''summary_path'']
      then (w, Inl TypeError)
      else (w, call_imported e w ''Me'' kwargs))"

text \<open>
  \<^verbatim>\<open>tool(**arguments)\<close>: the arguments must be a mapping, the object must be
  callable; both failures are TypeErrors.
\<close>

definition call_object :: "env \<Rightarrow> pyobject \<Rightarrow> pyval \<Rightarrow> world \<Rightarrow> world \<times> (error + pyval)" where
  "call_object e tool arguments w =
     (case arguments of
        PDict kwargs \<Rightarrow>
          (case tool of
             FnPush \<Rightarrow> call_push e kwargs w
           | FnRecordUserDetails \<Rightarrow> call_record_user_details e kwargs w
           | FnRecordUnknownQuestion \<Rightarrow> call_record_unknown_question e kwargs w
           | ClassMe \<Rightarrow> call_Me e kwargs w
           | Imported f \<Rightarrow> (w, call_imported e w f kwargs)
           | Module m \<Rightarrow> (w, Inl TypeError)
           | Data v \<Rightarrow> (w, Inl TypeError))
      | _ \<Rightarrow> (w, Inl TypeError))"

section \<open>The dispatcher\<close>

text \<open>\<^verbatim>\<open>print(s, flush=True)\<close>.\<close>

definition print_line :: "string \<Rightarrow> world \<Rightarrow> world" where
  "print_line s w = w\<lparr>stdout := stdout w @ [s]\<rparr>"

text \<open>
  One pass of the loop body of \<^verbatim>\<open>handle_tool_call\<close> up to the result: deserialise
  the arguments, print, look the name up in \<^verbatim>\<open>globals()\<close>, call what was found
  if it is truthy, else take the empty dict.
\<close>

definition tool_result :: "env \<Rightarrow> tool_call \<Rightarrow> world \<Rightarrow> world \<times> (error + pyval)" where
  "tool_result e tc w =
     (case loads e (function_arguments tc) of
        Inl err \<Rightarrow> (w, Inl err)
      | Inr arguments \<Rightarrow>
          (case globals_get e (function_name tc) of
             None \<Rightarrow> (print_line (''Tool called: '' @ function_name tc) w, Inr (PDict []))
           | Some tool \<Rightarrow>
               if truthy tool
               then call_object e tool arguments (print_line (''Tool called: '' @ function_name tc) w)
               else (print_line (''Tool called: '' @ function_name tc) w, Inr (PDict []))))"

definition tool_message :: "string \<Rightarrow> string \<Rightarrow> msg" where
  "tool_message s i = MDict [(''role'', PStr ''tool''), (''content'', PStr s), (''tool_call_id'', PStr i)]"

text \<open>The whole loop body: the result is serialised into a tool message.\<close>

definition handle_one :: "env \<Rightarrow> tool_call \<Rightarrow> world \<Rightarrow> world \<times> (error + msg)" where
  "handle_one e tc w =
     (case tool_result e tc w of
        (w', Inl err) \<Rightarrow> (w', Inl err)
      | (w', Inr result) \<Rightarrow>
          (case dumps e result of
             None \<Rightarrow> (w', Inl TypeError)
           | Some s \<Rightarrow> (w', Inr (tool_message s (call_id tc)))))"

text \<open>The \<^verbatim>\<open>for\<close> loop, with \<^verbatim>\<open>results\<close> as accumulator.\<close>

fun tool_loop :: "env \<Rightarrow> tool_call list \<Rightarrow> msg list \<Rightarrow> world \<Rightarrow> world \<times> (error + msg list)" where
  "tool_loop e [] results w = (w, Inr results)"
| "tool_loop e (tc # tcs) results w =
     (case handle_one e tc w of
        (w', Inl err) \<Rightarrow> (w', Inl err)
      | (w', Inr m) \<Rightarrow> tool_loop e tcs (results @ [m]) w')"

text \<open>Iterating over \<^verbatim>\<open>None\<close> is a TypeError.\<close>

definition handle_tool_call ::
    "env \<Rightarrow> tool_call list option \<Rightarrow> world \<Rightarrow> world \<times> (error + msg list)" where
  "handle_tool_call e tcs w =
     (case tcs of None \<Rightarrow> (w, Inl TypeError) | Some calls \<Rightarrow> tool_loop e calls [] w)"

section \<open>The persona and the conversation loop\<close>

record me =
  name :: string
  linkedin :: string
  summary :: string

definition system_prompt :: "me \<Rightarrow> string" where
  \<open>system_prompt me =
     ''You are acting as '' @
     name me @
     ''.\<newline>'' @
     ''            You are answering questions on '' @
     name me @
     '''s website, particularly questions\<newline>'' @
     ''            related to '' @
     name me @
     '''s career, background, skills and experience.\<newline>'' @
     ''            Your responsibility is to represent '' @
     name me @
     '' for interactions on the\<newline>'' @
     ''            website as faithfully as possible.\<newline>'' @
     ''            You are given a summary of '' @
     name me @
     '''s background and LinkedIn profile\<newline>'' @
     ''            which you can use to answer questions.\<newline>'' @
     ''            Be professional and engaging, as if talking to a potential client or future\<newline>'' @
     ''            employer who came across the website.\<newline>'' @
     ''            If you don't know the answer to any question, use your\<newline>'' @
     ''            "record_unknown_question" tool to record the question that you couldn't\<newline>'' @
     ''            answer, even if it's about something trivial or unrelated to career.\<newline>'' @
     ''            If the user is engaging in discussion, try to steer them towards getting in\<newline>'' @
     ''            touch via email; ask for their email and record it using your\<newline>'' @
     ''            "record_user_details" tool, but do this only once to avoid annoying the user\<newline>'' @
     ''            or spamming me with same email several times, if user insists remind him that\<newline>'' @
     ''            you already have their email and you'll contact them.\<newline>'' @
     ''\<newline>'' @
     ''            ## Summary:\<newline>'' @
     ''            '' @
     summary me @
     ''\<newline>'' @
     ''\<newline>'' @
     ''            ## LinkedIn Profile:\<newline>'' @
     ''            '' @
     linkedin me @
     ''\<newline>'' @
     ''\<newline>'' @
     ''            With this context, please chat with the user,\<newline>'' @
     ''            always staying in character as '' @
     name me @
     ''.\<newline>'' @
     ''            ''\<close>

definition completion_request :: "msg list \<Rightarrow> completion_request" where
  "completion_request msgs = \<lparr>req_model = ''gpt-4o-mini'', req_messages = msgs, req_tools = tools\<rparr>"

definition log_request :: "world \<Rightarrow> msg list \<Rightarrow> world" where
  "log_request w msgs = w\<lparr>requests := requests w @ [completion_request msgs]\<rparr>"

text \<open>
  One pass through the body of the \<^verbatim>\<open>while True\<close> loop of \<^verbatim>\<open>chat\<close>:
  it leaves the loop (by \<^verbatim>\<open>break\<close> and the \<^verbatim>\<open>return\<close> after it, or by an
  exception), or it goes round again with more messages.
\<close>

datatype iteration =
    Stop world "error + string option"
  | Continue world "msg list"

definition chat_iteration :: "env \<Rightarrow> world \<Rightarrow> msg list \<Rightarrow> iteration" where
  "chat_iteration e w msgs =
     (case create e w (completion_request msgs) of
        Inl err \<Rightarrow> Stop (log_request w msgs) (Inl err)
      | Inr resp \<Rightarrow>
          (case choices resp of
             [] \<Rightarrow> Stop (log_request w msgs) (Inl IndexError)
           | c # cs \<Rightarrow>
               if finish_reason c \<noteq> ''tool_calls''
               then Stop (log_request w msgs) (Inr (content (message c)))
               else (case handle_tool_call e (tool_calls (message c)) (log_request w msgs) of
                       (w', Inl err) \<Rightarrow> Stop w' (Inl err)
                     | (w', Inr results) \<Rightarrow>
                         Continue w' (msgs @ [MObj (message c)] @ results))))"

text \<open>
  The loop itself has no bound, so it is a partial function: \<open>None\<close> is a run that
  never leaves the loop, \<open>Some (w, Inl err)\<close> a run that an exception ends,
  \<open>Some (w, Inr c)\<close> a run that returns \<open>c\<close>.
\<close>

partial_function (option) chat_loop ::
    "env \<Rightarrow> world \<Rightarrow> msg list \<Rightarrow> (world \<times> (error + string option)) option" where
  "chat_loop e w msgs =
     (case chat_iteration e w msgs of
        Stop w' r \<Rightarrow> Some (w', r)
      | Continue w' msgs' \<Rightarrow> chat_loop e w' msgs')"

declare chat_loop.simps [code]

definition chat ::
    "env \<Rightarrow> me \<Rightarrow> string \<Rightarrow> msg list \<Rightarrow> world \<Rightarrow> (world \<times> (error + string option)) option" where
  "chat e self user_message history w =
     chat_loop e w ([MDict [(''role'', PStr ''system''), (''content'', PStr (system_prompt self))]]
                    @ history
                    @ [MDict [(''role'', PStr ''user''), (''content'', PStr user_message)]])"

text \<open>
  The state of the loop after \<open>n\<close> passes that each went round again; \<open>None\<close> when
  one of them left the loop.
\<close>

fun rounds :: "env \<Rightarrow> nat \<Rightarrow> world \<Rightarrow> msg list \<Rightarrow> (world \<times> msg list) option" where
  "rounds e 0 w msgs = Some (w, msgs)"
| "rounds e (Suc n) w msgs =
     (case chat_iteration e w msgs of
        Stop w' r \<Rightarrow> None
      | Continue w' msgs' \<Rightarrow> rounds e n w' msgs')"

section \<open>Concrete runs\<close>

text \<open>
  A completion API that answers from a script: the \<open>k\<close>-th request gets the \<open>k\<close>-th
  response, and a request beyond the script fails.
\<close>

definition scripted :: "response list \<Rightarrow> world \<Rightarrow> completion_request \<Rightarrow> error + response" where
  "scripted rs w r =
     (if length (requests w) < length rs then Inr (rs ! length (requests w)) else Inl APIError)"

definition tool_response :: "tool_call list \<Rightarrow> response" where
  "tool_response tcs =
     \<lparr>choices = [\<lparr>finish_reason = ''tool_calls'',
                  message = \<lparr>content = None, tool_calls = Some tcs\<rparr>\<rparr>]\<rparr>"

definition stop_response :: "string \<Rightarrow> response" where
  "stop_response s =
     \<lparr>choices = [\<lparr>finish_reason = ''stop'',
                  message = \<lparr>content = Some s, tool_calls = None\<rparr>\<rparr>]\<rparr>"

text \<open>Invocations a model may emit; the arguments of \<open>cut_off_call\<close> are cut off.\<close>

definition question_call :: tool_call where
  \<open>question_call = \<lparr>call_id = ''call_1'', function_name = ''record_unknown_question'',
                     function_arguments = ''{"question": "What is your favorite color?"}''\<rparr>\<close>

definition contact_call :: tool_call where
  \<open>contact_call = \<lparr>call_id = ''call_2'', function_name = ''record_user_details'',
                    function_arguments = ''{"email": "a@b.com"}''\<rparr>\<close>

definition weather_call :: tool_call where
  "weather_call = \<lparr>call_id = ''call_3'', function_name = ''lookup_weather'',
                    function_arguments = ''{}''\<rparr>"

definition json_call :: tool_call where
  "json_call = \<lparr>call_id = ''call_4'', function_name = ''json'', function_arguments = ''{}''\<rparr>"

definition cut_off_call :: tool_call where
  \<open>cut_off_call = \<lparr>call_id = ''call_5'', function_name = ''record_unknown_question'',
                    function_arguments = ''{"question": ''\<rparr>\<close>

definition spec_call :: tool_call where
  "spec_call = \<lparr>call_id = ''call_6'', function_name = ''__spec__'', function_arguments = ''{}''\<rparr>"

definition doc_call :: tool_call where
  "doc_call = \<lparr>call_id = ''call_7'', function_name = ''__doc__'', function_arguments = ''{}''\<rparr>"

text \<open>\<^verbatim>\<open>json.loads\<close> on the argument strings above.\<close>

definition example_loads :: "string \<Rightarrow> error + pyval" where
  \<open>example_loads s =
     (if s = ''{}'' then Inr (PDict [])
      else if s = ''{"question": "What is your favorite color?"}''
        then Inr (PDict [(''question'', PStr ''What is your favorite color?'')])
      else if s = ''{"email": "a@b.com"}'' then Inr (PDict [(''email'', PStr ''a@b.com'')])
      else Inl JSONDecodeError)\<close>

text \<open>
  An environment in which the file is run as a script, the notification transport answers
  every call with status 200 and the completion API follows the given script.
\<close>

definition example_env :: "response list \<Rightarrow> env" where
  \<open>example_env rs =
     \<lparr>loads = example_loads,
      encode_basestring = (\<lambda>s. ''"'' @ s @ ''"''),
      str_of = (\<lambda>v. case v of PNone \<Rightarrow> ''None'' | PBool b \<Rightarrow> (if b then ''True'' else ''False'')
                          | _ \<Rightarrow> ''<object>''),
      getenv = (\<lambda>k. if k = ''PUSHOVER_USER'' then Some ''user-key''
                     else if k = ''PUSHOVER_TOKEN'' then Some ''app-token'' else None),
      post = (\<lambda>w r. Inr 200),
      create = scripted rs,
      call_imported = (\<lambda>w f kwargs. Inr (PObj f)),
      name_of_module = ''__main__'',
      file_of_module = ''app.py'',
      interpreter_globals = [(''__package__'', Data PNone), (''__spec__'', Data PNone),
                             (''__annotations__'', Data (PDict [])), (''__cached__'', Data PNone)]\<rparr>\<close>

text \<open>The same with a transport whose every call raises.\<close>

definition offline_env :: "response list \<Rightarrow> env" where
  "offline_env rs = (example_env rs)\<lparr>post := (\<lambda>w r. Inl RequestException)\<rparr>"

text \<open>A completion API that asks for (no) tool calls on every request.\<close>

definition restless_env :: env where
  "restless_env = (example_env [])\<lparr>create := (\<lambda>w r. Inr (tool_response []))\<rparr>"

text \<open>A completion API that asks for tool calls \<open>n\<close> times and then answers.\<close>

definition patient_env :: "nat \<Rightarrow> env" where
  "patient_env n =
     (example_env [])\<lparr>create := (\<lambda>w r. if length (requests w) < n then Inr (tool_response [])
                                       else Inr (stop_response ''done''))\<rparr>"

definition fresh_world :: world where
  "fresh_world = \<lparr>posts = [], stdout = [], requests = []\<rparr>"

definition example_me :: me where
  "example_me = \<lparr>name = ''Carlos Bazaga'', linkedin = ''CV'', summary = ''Summary''\<rparr>"

section \<open>Facts about the dispatcher\<close>

subsection \<open>No tool handling issues a completion request\<close>

lemma push_requests: "requests (fst (push e t w)) = requests w"
  by (simp add: push_def split: sum.splits)

lemma record_user_details_world:
  "fst (record_user_details e a b c w) =
   fst (push e (PStr (''Recording '' @ format_value e b @ '' with email '' @
                      format_value e a @ '' and notes '' @ format_value e c)) w)"
  by (simp add: record_user_details_def split: prod.splits sum.splits)

lemma record_unknown_question_world:
  "fst (record_unknown_question e q w) = fst (push e (PStr (''Recording '' @ format_value e q)) w)"
  by (simp add: record_unknown_question_def split: prod.splits sum.splits)

lemma record_user_details_requests:
  "requests (fst (record_user_details e a b c w)) = requests w"
  by (simp only: record_user_details_world push_requests)

lemma record_unknown_question_requests:
  "requests (fst (record_unknown_question e q w)) = requests w"
  by (simp only: record_unknown_question_world push_requests)

lemma call_push_requests: "requests (fst (call_push e kw w)) = requests w"
  by (simp add: call_push_def push_requests split: option.splits)

lemma call_record_user_details_requests:
  "requests (fst (call_record_user_details e kw w)) = requests w"
  by (simp add: call_record_user_details_def record_user_details_requests split: option.splits)

lemma call_record_unknown_question_requests:
  "requests (fst (call_record_unknown_question e kw w)) = requests w"
  by (simp add: call_record_unknown_question_def record_unknown_question_requests
      split: option.splits)

lemma call_Me_requests: "requests (fst (call_Me e kw w)) = requests w"
  by (simp add: call_Me_def)

lemma call_object_requests: "requests (fst (call_object e obj args w)) = requests w"
  by (simp add: call_object_def call_push_requests call_record_user_details_requests
      call_record_unknown_question_requests call_Me_requests
      split: pyval.splits pyobject.splits)

lemma tool_result_requests: "requests (fst (tool_result e tc w)) = requests w"
  by (simp add: tool_result_def print_line_def call_object_requests split: sum.splits option.splits)

lemma handle_one_world: "fst (handle_one e tc w) = fst (tool_result e tc w)"
  by (simp add: handle_one_def split: prod.splits sum.splits option.splits)

lemma handle_one_requests: "requests (fst (handle_one e tc w)) = requests w"
  by (simp only: handle_one_world tool_result_requests)

lemma tool_loop_requests: "requests (fst (tool_loop e tcs acc w)) = requests w"
proof (induction tcs arbitrary: acc w)
  case Nil
  show ?case by simp
next
  case (Cons tc tcs)
  show ?case
  proof (cases "handle_one e tc w")
    case (Pair w1 r)
    have rq: "requests w1 = requests w"
      using handle_one_requests [of e tc w] Pair by simp
    show ?thesis
    proof (cases r)
      case (Inl err)
      with Pair rq show ?thesis by simp
    next
      case (Inr m)
      with Pair rq Cons.IH [of "acc @ [m]" w1] show ?thesis by simp
    qed
  qed
qed

lemma handle_tool_call_requests: "requests (fst (handle_tool_call e tcs w)) = requests w"
  by (simp add: handle_tool_call_def tool_loop_requests split: option.splits)

subsection \<open>An exception in one invocation ends the whole step\<close>

lemma handle_one_raises:
  "tool_result e tc w = (w', Inl err) \<Longrightarrow> handle_one e tc w = (w', Inl err)"
  by (simp add: handle_one_def)

lemma tool_loop_append:
  "tool_loop e before acc w = (w1, Inr rs) \<Longrightarrow>
   tool_loop e (before @ rest) acc w = tool_loop e rest rs w1"
proof (induction before arbitrary: acc w)
  case Nil
  then show ?case by simp
next
  case (Cons tc tcs)
  show ?case
  proof (cases "handle_one e tc w")
    case (Pair w2 r)
    show ?thesis
    proof (cases r)
      case (Inl err)
      with Pair Cons.prems show ?thesis by simp
    next
      case (Inr m)
      with Pair Cons.prems have "tool_loop e tcs (acc @ [m]) w2 = (w1, Inr rs)" by simp
      from Cons.IH [OF this] Pair Inr show ?thesis by simp
    qed
  qed
qed

lemma tool_loop_raises:
  "tool_loop e before [] w = (w1, Inr rs) \<Longrightarrow> tool_result e tc w1 = (w2, Inl err) \<Longrightarrow>
   tool_loop e (before @ tc # rest) [] w = (w2, Inl err)"
  by (simp add: tool_loop_append handle_one_raises)

subsection \<open>The results of a step that raises nothing\<close>

lemma tool_loop_results:
  "tool_loop e tcs acc w = (w', Inr rs) \<Longrightarrow>
   \<exists>ms ws. rs = acc @ ms \<and> length ms = length tcs \<and> length ws = Suc (length tcs) \<and>
     ws ! 0 = w \<and> ws ! length tcs = w' \<and>
     (\<forall>i<length tcs. \<exists>v s. tool_result e (tcs ! i) (ws ! i) = (ws ! Suc i, Inr v) \<and>
        dumps e v = Some s \<and> ms ! i = tool_message s (call_id (tcs ! i)))"
proof (induction tcs arbitrary: acc w)
  case Nil
  then have eq: "rs = acc" "w' = w" by simp_all
  show ?case
    by (rule exI [of _ "[]"], rule exI [of _ "[w]"]) (simp add: eq)
next
  case (Cons tc tcs)
  obtain w1 r where h1: "handle_one e tc w = (w1, r)" by (cases "handle_one e tc w")
  with Cons.prems obtain m where r: "r = Inr m" by (cases r) simp_all
  obtain w1' r' where tr0: "tool_result e tc w = (w1', r')" by (cases "tool_result e tc w")
  from h1 r tr0 obtain v where r': "r' = Inr v" and w1': "w1' = w1"
    by (cases r') (simp_all add: handle_one_def split: option.splits)
  from h1 r tr0 r' obtain s where d: "dumps e v = Some s" and m: "m = tool_message s (call_id tc)"
    by (cases "dumps e v") (simp_all add: handle_one_def)
  have tr: "tool_result e tc w = (w1, Inr v)" using tr0 r' w1' by simp
  from Cons.prems h1 r have "tool_loop e tcs (acc @ [m]) w1 = (w', Inr rs)" by simp
  from Cons.IH [OF this] obtain ms where "\<exists>ws. rs = (acc @ [m]) @ ms \<and> length ms = length tcs \<and>
     length ws = Suc (length tcs) \<and> ws ! 0 = w1 \<and> ws ! length tcs = w' \<and>
     (\<forall>i<length tcs. \<exists>v s. tool_result e (tcs ! i) (ws ! i) = (ws ! Suc i, Inr v) \<and>
        dumps e v = Some s \<and> ms ! i = tool_message s (call_id (tcs ! i)))" ..
  then obtain ws where all: "rs = (acc @ [m]) @ ms \<and> length ms = length tcs \<and>
     length ws = Suc (length tcs) \<and> ws ! 0 = w1 \<and> ws ! length tcs = w' \<and>
     (\<forall>i<length tcs. \<exists>v s. tool_result e (tcs ! i) (ws ! i) = (ws ! Suc i, Inr v) \<and>
        dumps e v = Some s \<and> ms ! i = tool_message s (call_id (tcs ! i)))" ..
  from all have rs: "rs = (acc @ [m]) @ ms" by (elim conjE)
  from all have lm: "length ms = length tcs" by (elim conjE)
  from all have lw: "length ws = Suc (length tcs)" by (elim conjE)
  from all have w0: "ws ! 0 = w1" by (elim conjE)
  from all have wn: "ws ! length tcs = w'" by (elim conjE)
  from all have each: "\<forall>i<length tcs. \<exists>v s.
      tool_result e (tcs ! i) (ws ! i) = (ws ! Suc i, Inr v) \<and>
      dumps e v = Some s \<and> ms ! i = tool_message s (call_id (tcs ! i))" by (elim conjE)
  have each': "\<forall>i<length (tc # tcs). \<exists>v s.
      tool_result e ((tc # tcs) ! i) ((w # ws) ! i) = ((w # ws) ! Suc i, Inr v) \<and>
      dumps e v = Some s \<and> (m # ms) ! i = tool_message s (call_id ((tc # tcs) ! i))"
  proof (intro allI impI)
    fix i assume i: "i < length (tc # tcs)"
    show "\<exists>v s. tool_result e ((tc # tcs) ! i) ((w # ws) ! i) = ((w # ws) ! Suc i, Inr v) \<and>
      dumps e v = Some s \<and> (m # ms) ! i = tool_message s (call_id ((tc # tcs) ! i))"
    proof (cases i)
      case 0
      have "tool_result e tc w = (ws ! 0, Inr v) \<and> dumps e v = Some s \<and>
          m = tool_message s (call_id tc)"
        using tr d m w0 by simp
      then show ?thesis unfolding 0 by (simp only: nth_Cons_0 nth_Cons_Suc) blast
    next
      case (Suc j)
      with i have "j < length tcs" by simp
      with each have "\<exists>v s. tool_result e (tcs ! j) (ws ! j) = (ws ! Suc j, Inr v) \<and>
          dumps e v = Some s \<and> ms ! j = tool_message s (call_id (tcs ! j))" by (elim allE impE)
      then show ?thesis unfolding Suc by (simp only: nth_Cons_Suc)
    qed
  qed
  show ?case
  proof (rule exI [of _ "m # ms"], rule exI [of _ "w # ws"], intro conjI)
    show "rs = acc @ m # ms" using rs by simp
    show "length (m # ms) = length (tc # tcs)" using lm by simp
    show "length (w # ws) = Suc (length (tc # tcs))" using lw by simp
    show "(w # ws) ! 0 = w" by simp
    show "(w # ws) ! length (tc # tcs) = w'" using wn by simp
    show "\<forall>i<length (tc # tcs). \<exists>v s.
      tool_result e ((tc # tcs) ! i) ((w # ws) ! i) = ((w # ws) ! Suc i, Inr v) \<and>
      dumps e v = Some s \<and> (m # ms) ! i = tool_message s (call_id ((tc # tcs) ! i))"
      by (rule each')
  qed
qed

section \<open>Facts about the loop\<close>

lemma chat_loop_Stop: "chat_iteration e w msgs = Stop w' r \<Longrightarrow> chat_loop e w msgs = Some (w', r)"
  by (subst chat_loop.simps) simp

lemma chat_loop_Continue:
  "chat_iteration e w msgs = Continue w' msgs' \<Longrightarrow> chat_loop e w msgs = chat_loop e w' msgs'"
  by (subst chat_loop.simps) simp

lemma chat_iteration_tool_calls:
  "create e w (completion_request msgs) = Inr resp \<Longrightarrow> choices resp = c # cs \<Longrightarrow>
   finish_reason c = ''tool_calls'' \<Longrightarrow>
   chat_iteration e w msgs =
     (case handle_tool_call e (tool_calls (message c)) (log_request w msgs) of
        (w', Inl err) \<Rightarrow> Stop w' (Inl err)
      | (w', Inr results) \<Rightarrow> Continue w' (msgs @ [MObj (message c)] @ results))"
  by (simp add: chat_iteration_def split: prod.splits sum.splits)

lemma chat_iteration_returns:
  "chat_iteration e w msgs = Stop w' (Inr r) \<longleftrightarrow>
   (\<exists>resp c cs. create e w (completion_request msgs) = Inr resp \<and> choices resp = c # cs \<and>
      finish_reason c \<noteq> ''tool_calls'' \<and> r = content (message c) \<and> w' = log_request w msgs)"
  by (auto simp: chat_iteration_def split: sum.splits list.splits prod.splits)

lemma log_request_requests: "requests (log_request w msgs) = requests w @ [completion_request msgs]"
  by (simp add: log_request_def)

lemma chat_iteration_requests:
  "requests (case chat_iteration e w msgs of Stop w' r \<Rightarrow> w' | Continue w' msgs' \<Rightarrow> w') =
   requests w @ [completion_request msgs]"
proof (cases "create e w (completion_request msgs)")
  case (Inl err)
  then show ?thesis by (simp add: chat_iteration_def log_request_requests)
next
  case (Inr resp)
  note resp = this
  show ?thesis
  proof (cases "choices resp")
    case Nil
    with resp show ?thesis by (simp add: chat_iteration_def log_request_requests)
  next
    case (Cons c cs)
    show ?thesis
    proof (cases "finish_reason c = ''tool_calls''")
      case False
      with resp Cons show ?thesis by (simp add: chat_iteration_def log_request_requests)
    next
      case True
      obtain w1 r where h: "handle_tool_call e (tool_calls (message c)) (log_request w msgs) = (w1, r)"
        by (cases "handle_tool_call e (tool_calls (message c)) (log_request w msgs)")
      have "requests w1 = requests w @ [completion_request msgs]"
        using handle_tool_call_requests [of e "tool_calls (message c)" "log_request w msgs"] h
        by (simp add: log_request_requests)
      with h show ?thesis
        by (cases r) (simp_all add: chat_iteration_tool_calls [OF resp Cons True])
    qed
  qed
qed

lemma chat_iteration_Stop_requests:
  "chat_iteration e w msgs = Stop w' r \<Longrightarrow> requests w' = requests w @ [completion_request msgs]"
  using chat_iteration_requests [of e w msgs] by simp

lemma chat_iteration_Continue_requests:
  "chat_iteration e w msgs = Continue w' msgs' \<Longrightarrow>
   requests w' = requests w @ [completion_request msgs]"
  using chat_iteration_requests [of e w msgs] by simp

text \<open>Whatever a run of the loop ends with, its first completion request held the
  messages the loop was entered with.\<close>

lemma chat_loop_first_request:
  assumes "chat_loop e w msgs = Some out"
  shows "\<exists>rest. requests (fst out) = requests w @ completion_request msgs # rest"
proof (rule chat_loop.raw_induct
    [where P = "\<lambda>e w msgs out. \<exists>rest. requests (fst out) = requests w @ completion_request msgs # rest",
      OF _ assms])
  fix loop :: "env \<Rightarrow> world \<Rightarrow> msg list \<Rightarrow> (world \<times> (error + string option)) option"
  fix e w msgs out
  assume IH: "\<And>e w msgs out. loop e w msgs = Some out \<Longrightarrow>
      \<exists>rest. requests (fst out) = requests w @ completion_request msgs # rest"
  assume body: "(case chat_iteration e w msgs of
        Stop w' r \<Rightarrow> Some (w', r)
      | Continue w' msgs' \<Rightarrow> loop e w' msgs') = Some out"
  show "\<exists>rest. requests (fst out) = requests w @ completion_request msgs # rest"
  proof (cases "chat_iteration e w msgs")
    case (Stop w' r)
    with body have "out = (w', r)" by simp
    with chat_iteration_Stop_requests [OF Stop] show ?thesis by simp
  next
    case (Continue w' msgs')
    with body have "loop e w' msgs' = Some out" by simp
    from IH [OF this] obtain rest where
      "requests (fst out) = requests w' @ completion_request msgs' # rest" ..
    with chat_iteration_Continue_requests [OF Continue] show ?thesis by simp
  qed
qed

text \<open>A run that ends has left the loop after finitely many passes, and conversely.\<close>

lemma rounds_chat_loop:
  "rounds e n w msgs = Some (w1, msgs1) \<Longrightarrow> chat_loop e w msgs = chat_loop e w1 msgs1"
proof (induction n arbitrary: w msgs)
  case 0
  then show ?case by simp
next
  case (Suc n)
  show ?case
  proof (cases "chat_iteration e w msgs")
    case (Stop w' r)
    with Suc.prems show ?thesis by simp
  next
    case (Continue w' msgs')
    with Suc.prems have "rounds e n w' msgs' = Some (w1, msgs1)" by simp
    from Suc.IH [OF this] chat_loop_Continue [OF Continue] show ?thesis by simp
  qed
qed

lemma chat_loop_rounds:
  assumes "chat_loop e w msgs = Some out"
  shows "\<exists>n w1 msgs1. rounds e n w msgs = Some (w1, msgs1) \<and>
           chat_iteration e w1 msgs1 = Stop (fst out) (snd out)"
proof (rule chat_loop.raw_induct
    [where P = "\<lambda>e w msgs out. \<exists>n w1 msgs1. rounds e n w msgs = Some (w1, msgs1) \<and>
           chat_iteration e w1 msgs1 = Stop (fst out) (snd out)",
      OF _ assms])
  fix loop :: "env \<Rightarrow> world \<Rightarrow> msg list \<Rightarrow> (world \<times> (error + string option)) option"
  fix e w msgs out
  assume IH: "\<And>e w msgs out. loop e w msgs = Some out \<Longrightarrow>
      \<exists>n w1 msgs1. rounds e n w msgs = Some (w1, msgs1) \<and>
           chat_iteration e w1 msgs1 = Stop (fst out) (snd out)"
  assume body: "(case chat_iteration e w msgs of
        Stop w' r \<Rightarrow> Some (w', r)
      | Continue w' msgs' \<Rightarrow> loop e w' msgs') = Some out"
  show "\<exists>n w1 msgs1. rounds e n w msgs = Some (w1, msgs1) \<and>
           chat_iteration e w1 msgs1 = Stop (fst out) (snd out)"
  proof (cases "chat_iteration e w msgs")
    case (Stop w' r)
    with body have "out = (w', r)" by simp
    with Stop have "rounds e 0 w msgs = Some (w, msgs) \<and>
        chat_iteration e w msgs = Stop (fst out) (snd out)" by simp
    then show ?thesis by blast
  next
    case (Continue w' msgs')
    with body have "loop e w' msgs' = Some out" by simp
    from IH [OF this] obtain n w1 msgs1 where
      "rounds e n w' msgs' = Some (w1, msgs1) \<and>
       chat_iteration e w1 msgs1 = Stop (fst out) (snd out)" by blast
    with Continue have "rounds e (Suc n) w msgs = Some (w1, msgs1) \<and>
       chat_iteration e w1 msgs1 = Stop (fst out) (snd out)" by simp
    then show ?thesis by blast
  qed
qed

section \<open>Facts about handlers, names and runs\<close>

subsection \<open>The notifier\<close>

lemma push_returns:
  "post e w (pushover_request e t) = Inr status \<Longrightarrow>
   push e t w = (w\<lparr>posts := posts w @ [pushover_request e t]\<rparr>, Inr PNone)"
  by (simp add: push_def)

lemma push_raises:
  "post e w (pushover_request e t) = Inl err \<Longrightarrow>
   push e t w = (w\<lparr>posts := posts w @ [pushover_request e t]\<rparr>, Inl err)"
  by (simp add: push_def)

lemma push_posts: "posts (fst (push e t w)) = posts w @ [pushover_request e t]"
  by (simp add: push_def split: sum.splits)

subsection \<open>An exception of the tool-handling step ends the run\<close>

lemma handle_tool_call_raises:
  "tool_loop e before [] w = (w1, Inr rs) \<Longrightarrow> tool_result e tc w1 = (w2, Inl err) \<Longrightarrow>
   handle_tool_call e (Some (before @ tc # rest)) w = (w2, Inl err)"
  by (simp add: handle_tool_call_def tool_loop_raises)

lemma chat_loop_tool_raises:
  assumes "create e w (completion_request msgs) = Inr resp"
    and "choices resp = c # cs"
    and "finish_reason c = ''tool_calls''"
    and "tool_calls (message c) = Some (before @ tc # rest)"
    and "tool_loop e before [] (log_request w msgs) = (w1, Inr rs)"
    and "tool_result e tc w1 = (w2, Inl err)"
  shows "chat_loop e w msgs = Some (w2, Inl err)"
proof -
  have "handle_tool_call e (tool_calls (message c)) (log_request w msgs) = (w2, Inl err)"
    using handle_tool_call_raises [OF assms(5,6)] assms(4) by simp
  then have "chat_iteration e w msgs = Stop w2 (Inl err)"
    by (simp add: chat_iteration_tool_calls [OF assms(1-3)])
  then show ?thesis by (rule chat_loop_Stop)
qed

subsection \<open>What the global names are bound to\<close>

lemma tool_result_truthy:
  "loads e (function_arguments tc) = Inr args \<Longrightarrow>
   globals_get e (function_name tc) = Some obj \<Longrightarrow> truthy obj \<Longrightarrow>
   tool_result e tc w = call_object e obj args (print_line (''Tool called: '' @ function_name tc) w)"
  by (simp add: tool_result_def)

lemma tool_result_no_tool:
  "loads e (function_arguments tc) = Inr args \<Longrightarrow> no_tool e (function_name tc) \<Longrightarrow>
   tool_result e tc w = (print_line (''Tool called: '' @ function_name tc) w, Inr (PDict []))"
  by (simp add: tool_result_def no_tool_def split: option.splits)

lemma globals_push: "globals_get e ''push'' = Some FnPush"
  by (simp add: globals_get_def py_globals_def)

lemma globals_json: "globals_get e ''json'' = Some (Module ''json'')"
  by (simp add: globals_get_def py_globals_def)

lemma globals_os: "globals_get e ''os'' = Some (Module ''os'')"
  by (simp add: globals_get_def py_globals_def)

lemma globals_record_unknown_question:
  "globals_get e ''record_unknown_question'' = Some FnRecordUnknownQuestion"
  by (simp add: globals_get_def py_globals_def)

lemma globals_record_user_details:
  "globals_get e ''record_user_details'' = Some FnRecordUserDetails"
  by (simp add: globals_get_def py_globals_def)

lemma registry_names_eq: "registry_names = [''record_user_details'', ''record_unknown_question'']"
  by (simp add: registry_names_def tools_def record_user_details_json_def
      record_unknown_question_json_def)

subsection \<open>Invocations of the two tools\<close>

lemma tool_result_record_unknown_question:
  "function_name tc = ''record_unknown_question'' \<Longrightarrow>
   loads e (function_arguments tc) = Inr (PDict [(''question'', q)]) \<Longrightarrow>
   tool_result e tc w = record_unknown_question e q (print_line ''Tool called: record_unknown_question'' w)"
  by (simp add: tool_result_def globals_record_unknown_question call_object_def
      call_record_unknown_question_def unexpected_keyword_def)

lemma tool_result_record_user_details:
  "function_name tc = ''record_user_details'' \<Longrightarrow>
   loads e (function_arguments tc) = Inr (PDict kwargs) \<Longrightarrow>
   \<not> unexpected_keyword [''email'', ''name'', ''notes''] kwargs \<Longrightarrow>
   map_of kwargs ''email'' = Some a \<Longrightarrow>
   tool_result e tc w
     = record_user_details e a
         (case map_of kwargs ''name'' of None \<Rightarrow> PStr ''Name not provided'' | Some v \<Rightarrow> v)
         (case map_of kwargs ''notes'' of None \<Rightarrow> PStr ''not provided'' | Some v \<Rightarrow> v)
         (print_line ''Tool called: record_user_details'' w)"
  by (simp add: tool_result_def globals_record_user_details call_object_def
      call_record_user_details_def)

lemma tool_result_push:
  "function_name tc = ''push'' \<Longrightarrow>
   loads e (function_arguments tc) = Inr (PDict [(''text'', t)]) \<Longrightarrow>
   tool_result e tc w = push e t (print_line ''Tool called: push'' w)"
  by (simp add: tool_result_def globals_push call_object_def call_push_def unexpected_keyword_def)

lemma record_unknown_question_raises:
  "post e w (pushover_request e (PStr (''Recording '' @ format_value e q))) = Inl err \<Longrightarrow>
   record_unknown_question e q w
     = (w\<lparr>posts := posts w @ [pushover_request e (PStr (''Recording '' @ format_value e q))]\<rparr>, Inl err)"
  by (simp add: record_unknown_question_def push_raises)

lemma record_unknown_question_returns:
  "post e w (pushover_request e (PStr (''Recording '' @ format_value e q))) = Inr status \<Longrightarrow>
   record_unknown_question e q w
     = (w\<lparr>posts := posts w @ [pushover_request e (PStr (''Recording '' @ format_value e q))]\<rparr>,
        Inr (PDict [(''recorded'', PStr ''ok'')]))"
  by (simp add: record_unknown_question_def push_returns)

lemma record_user_details_raises:
  "post e w (pushover_request e (PStr (''Recording '' @ format_value e n @ '' with email '' @
      format_value e a @ '' and notes '' @ format_value e notes))) = Inl err \<Longrightarrow>
   record_user_details e a n notes w
     = (w\<lparr>posts := posts w @ [pushover_request e (PStr (''Recording '' @ format_value e n @
          '' with email '' @ format_value e a @ '' and notes '' @ format_value e notes))]\<rparr>, Inl err)"
  by (simp add: record_user_details_def push_raises)

lemma record_user_details_returns:
  "post e w (pushover_request e (PStr (''Recording '' @ format_value e n @ '' with email '' @
      format_value e a @ '' and notes '' @ format_value e notes))) = Inr status \<Longrightarrow>
   record_user_details e a n notes w
     = (w\<lparr>posts := posts w @ [pushover_request e (PStr (''Recording '' @ format_value e n @
          '' with email '' @ format_value e a @ '' and notes '' @ format_value e notes))]\<rparr>,
        Inr (PDict [(''recorded'', PStr ''ok'')]))"
  by (simp add: record_user_details_def push_returns)

lemma chat_iteration_stop:
  "create e w (completion_request msgs) = Inr resp \<Longrightarrow> choices resp = c # cs \<Longrightarrow>
   finish_reason c \<noteq> ''tool_calls'' \<Longrightarrow>
   chat_iteration e w msgs = Stop (log_request w msgs) (Inr (content (message c)))"
  by (simp add: chat_iteration_def)

subsection \<open>Invocations of names that pass for no tool\<close>

lemma dumps_empty_dict: "dumps e (PDict []) = Some ''{}''"
  by simp

lemma handle_one_no_tool:
  "loads e (function_arguments tc) = Inr args \<Longrightarrow> no_tool e (function_name tc) \<Longrightarrow>
   handle_one e tc w
     = (print_line (''Tool called: '' @ function_name tc) w, Inr (tool_message ''{}'' (call_id tc)))"
  by (simp add: handle_one_def tool_result_no_tool)

lemma tool_loop_no_tool:
  "list_all (\<lambda>tc. (\<exists>args. loads e (function_arguments tc) = Inr args) \<and>
      no_tool e (function_name tc)) tcs \<Longrightarrow>
   tool_loop e tcs acc w
     = (w\<lparr>stdout := stdout w @ map (\<lambda>tc. ''Tool called: '' @ function_name tc) tcs\<rparr>,
        Inr (acc @ map (\<lambda>tc. tool_message ''{}'' (call_id tc)) tcs))"
proof (induction tcs arbitrary: acc w)
  case Nil
  show ?case by simp
next
  case (Cons tc tcs)
  from Cons.prems obtain args where l: "loads e (function_arguments tc) = Inr args"
    and g: "no_tool e (function_name tc)"
    and rest: "list_all (\<lambda>tc. (\<exists>args. loads e (function_arguments tc) = Inr args) \<and>
      no_tool e (function_name tc)) tcs"
    by auto
  show ?case
    by (simp add: handle_one_no_tool [OF l g] Cons.IH [OF rest] print_line_def)
qed

lemma example_no_weather: "no_tool (example_env rs) ''lookup_weather''"
  by (simp add: no_tool_def globals_get_def py_globals_def run_as_main_def example_env_def)

lemma example_spec: "globals_get (example_env rs) ''__spec__'' = Some (Data PNone)"
  by (simp add: globals_get_def py_globals_def run_as_main_def example_env_def)

lemma globals_doc:
  "globals_get e ''__doc__'' = Some (Data (PStr ''Interactive AI Resume and CV chatbot..''))"
  by (simp add: globals_get_def py_globals_def)

subsection \<open>Finding a text inside a concatenation\<close>

lemma occurs_here: "\<exists>p q. xs @ ss = p @ xs @ q"
  by (rule exI [of _ "[]"]) simp

lemma occurs_later: "\<exists>p q. ys = p @ xs @ q \<Longrightarrow> \<exists>p q. zs @ ys = p @ xs @ q"
  by (metis append_assoc)

subsection \<open>Runs that never leave the loop, runs of any length\<close>

lemma chat_iteration_always_tool_calls:
  assumes "\<forall>w r. \<exists>resp c cs. create e w r = Inr resp \<and> choices resp = c # cs \<and>
      finish_reason c = ''tool_calls''"
  shows "chat_iteration e w msgs \<noteq> Stop w' (Inr r)"
proof
  assume "chat_iteration e w msgs = Stop w' (Inr r)"
  then obtain resp c cs where "create e w (completion_request msgs) = Inr resp"
    and "choices resp = c # cs" and no: "finish_reason c \<noteq> ''tool_calls''"
    unfolding chat_iteration_returns by blast
  moreover from assms obtain resp' c' cs' where
    "create e w (completion_request msgs) = Inr resp'" and "choices resp' = c' # cs'"
    and "finish_reason c' = ''tool_calls''"
    by blast
  ultimately show False by simp
qed

lemma chat_loop_always_tool_calls:
  assumes always: "\<forall>w r. \<exists>resp c cs. create e w r = Inr resp \<and> choices resp = c # cs \<and>
      finish_reason c = ''tool_calls''"
    and run: "chat_loop e w msgs = Some out"
  shows "\<exists>err. snd out = Inl err"
proof (rule mp [OF _ always], rule chat_loop.raw_induct
    [where P = "\<lambda>e w msgs out.
        (\<forall>w r. \<exists>resp c cs. create e w r = Inr resp \<and> choices resp = c # cs \<and>
           finish_reason c = ''tool_calls'') \<longrightarrow> (\<exists>err. snd out = Inl err)",
      OF _ run])
  fix loop :: "env \<Rightarrow> world \<Rightarrow> msg list \<Rightarrow> (world \<times> (error + string option)) option"
  fix e w msgs out
  assume IH: "\<And>e w msgs out. loop e w msgs = Some out \<Longrightarrow>
      (\<forall>w r. \<exists>resp c cs. create e w r = Inr resp \<and> choices resp = c # cs \<and>
           finish_reason c = ''tool_calls'') \<longrightarrow> (\<exists>err. snd out = Inl err)"
  assume body: "(case chat_iteration e w msgs of
        Stop w' r \<Rightarrow> Some (w', r)
      | Continue w' msgs' \<Rightarrow> loop e w' msgs') = Some out"
  show "(\<forall>w r. \<exists>resp c cs. create e w r = Inr resp \<and> choices resp = c # cs \<and>
           finish_reason c = ''tool_calls'') \<longrightarrow> (\<exists>err. snd out = Inl err)"
  proof
    assume a: "\<forall>w r. \<exists>resp c cs. create e w r = Inr resp \<and> choices resp = c # cs \<and>
           finish_reason c = ''tool_calls''"
    show "\<exists>err. snd out = Inl err"
    proof (cases "chat_iteration e w msgs")
      case (Stop w' r)
      with body have out: "out = (w', r)" by simp
      show ?thesis
      proof (cases r)
        case (Inl err)
        with out show ?thesis by simp
      next
        case (Inr v)
        with Stop chat_iteration_always_tool_calls [OF a, of w msgs w' v] show ?thesis by simp
      qed
    next
      case (Continue w' msgs')
      with body have "loop e w' msgs' = Some out" by simp
      from IH [OF this] a show ?thesis by (rule mp)
    qed
  qed
qed

lemma restless_iteration:
  "chat_iteration restless_env w msgs
     = Continue (log_request w msgs)
         (msgs @ [MObj \<lparr>content = None, tool_calls = Some []\<rparr>])"
  by (simp add: chat_iteration_def restless_env_def tool_response_def handle_tool_call_def)

lemma restless_never_ends:
  assumes run: "chat_loop e w msgs = Some out"
  shows "e \<noteq> restless_env"
proof (rule chat_loop.raw_induct [where P = "\<lambda>e w msgs out. e \<noteq> restless_env", OF _ run])
  fix loop :: "env \<Rightarrow> world \<Rightarrow> msg list \<Rightarrow> (world \<times> (error + string option)) option"
  fix e w msgs out
  assume IH: "\<And>e w msgs out. loop e w msgs = Some out \<Longrightarrow> e \<noteq> restless_env"
  assume body: "(case chat_iteration e w msgs of
        Stop w' r \<Rightarrow> Some (w', r)
      | Continue w' msgs' \<Rightarrow> loop e w' msgs') = Some out"
  show "e \<noteq> restless_env"
  proof
    assume e: "e = restless_env"
    with body have "loop e (log_request w msgs)
        (msgs @ [MObj \<lparr>content = None, tool_calls = Some []\<rparr>]) = Some out"
      by (simp add: restless_iteration)
    from IH [OF this] e show False by simp
  qed
qed

lemma restless_diverges: "chat_loop restless_env w msgs = None"
proof (cases "chat_loop restless_env w msgs")
  case None
  then show ?thesis .
next
  case (Some out)
  from restless_never_ends [OF this] show ?thesis by simp
qed

lemma patient_tool_round:
  "length (requests w) < n \<Longrightarrow>
   chat_iteration (patient_env n) w msgs
     = Continue (log_request w msgs) (msgs @ [MObj \<lparr>content = None, tool_calls = Some []\<rparr>])"
  by (simp add: chat_iteration_def patient_env_def tool_response_def handle_tool_call_def)

lemma patient_answer:
  "\<not> length (requests w) < n \<Longrightarrow>
   chat_iteration (patient_env n) w msgs = Stop (log_request w msgs) (Inr (Some ''done''))"
  by (simp add: chat_iteration_def patient_env_def stop_response_def)

lemma patient_run:
  "k = n - length (requests w) \<Longrightarrow> length (requests w) \<le> n \<Longrightarrow>
   \<exists>w'. chat_loop (patient_env n) w msgs = Some (w', Inr (Some ''done'')) \<and>
        length (requests w') = Suc n"
proof (induction k arbitrary: w msgs)
  case 0
  then have "\<not> length (requests w) < n" by simp
  from chat_loop_Stop [OF patient_answer [OF this]] 0
  have "chat_loop (patient_env n) w msgs = Some (log_request w msgs, Inr (Some ''done'')) \<and>
      length (requests (log_request w msgs)) = Suc n"
    by (simp add: log_request_requests)
  then show ?case by blast
next
  case (Suc k)
  then have lt: "length (requests w) < n" by simp
  have "k = n - length (requests (log_request w msgs))"
    and "length (requests (log_request w msgs)) \<le> n"
    using Suc.prems by (simp_all add: log_request_requests)
  from Suc.IH [OF this] chat_loop_Continue [OF patient_tool_round [OF lt]]
  show ?case by simp
qed

section \<open>The claims\<close>

subsection \<open>Claim C1\<close>

text \<open>
  C1, as the claim states it, fails: \<open>json\<close> is no tool of the registry, and an
  invocation of that name raises a TypeError, which ends the tool-handling step and the
  chat.
\<close>

theorem unknown_tool_counterexample:
  "function_name json_call \<notin> set registry_names
   \<and> loads (example_env []) (function_arguments json_call) = Inr (PDict [])
   \<and> tool_result (example_env []) json_call fresh_world
       = (\<lparr>posts = [], stdout = [''Tool called: json''], requests = []\<rparr>, Inl TypeError)
   \<and> handle_tool_call (example_env []) (Some [json_call]) fresh_world
       = (\<lparr>posts = [], stdout = [''Tool called: json''], requests = []\<rparr>, Inl TypeError)
   \<and> chat_loop (example_env [tool_response [json_call], stop_response ''bye'']) fresh_world []
       = Some (\<lparr>posts = [], stdout = [''Tool called: json''],
                 requests = [completion_request []]\<rparr>, Inl TypeError)"
proof (intro conjI)
  show "function_name json_call \<notin> set registry_names"
    by (simp add: registry_names_eq json_call_def)
  show l: "loads (example_env []) (function_arguments json_call) = Inr (PDict [])"
    by (simp add: example_env_def example_loads_def json_call_def)
  have g: "globals_get (example_env rs) (function_name json_call) = Some (Module ''json'')" for rs
    by (simp add: json_call_def globals_json)
  have l': "loads (example_env rs) (function_arguments json_call) = Inr (PDict [])" for rs
    by (simp add: example_env_def example_loads_def json_call_def)
  have t: "tool_result (example_env rs) json_call w
      = (print_line ''Tool called: json'' w, Inl TypeError)" for rs w
    unfolding tool_result_truthy [OF l' g, simplified]
    by (simp add: call_object_def json_call_def)
  show "tool_result (example_env []) json_call fresh_world
       = (\<lparr>posts = [], stdout = [''Tool called: json''], requests = []\<rparr>, Inl TypeError)"
    by (simp add: t print_line_def fresh_world_def)
  have f: "tool_loop (example_env rs) [] [] w = (w, Inr [])" for rs w by simp
  from handle_tool_call_raises [OF f [of "[]" fresh_world] t [of "[]" fresh_world], where rest = "[]"]
  show "handle_tool_call (example_env []) (Some [json_call]) fresh_world
       = (\<lparr>posts = [], stdout = [''Tool called: json''], requests = []\<rparr>, Inl TypeError)"
    by (simp add: print_line_def fresh_world_def)
  let ?e = "example_env [tool_response [json_call], stop_response ''bye'']"
  let ?c = "\<lparr>finish_reason = ''tool_calls'',
              message = \<lparr>content = None, tool_calls = Some [json_call]\<rparr>\<rparr>"
  have a: "create ?e fresh_world (completion_request []) = Inr (tool_response [json_call])"
    by (simp add: example_env_def scripted_def fresh_world_def)
  have b: "choices (tool_response [json_call]) = ?c # []" by (simp add: tool_response_def)
  have c: "finish_reason ?c = ''tool_calls''" by simp
  have d: "tool_calls (message ?c) = Some ([] @ json_call # [])" by simp
  from chat_loop_tool_raises [OF a b c d f t]
  show "chat_loop ?e fresh_world []
       = Some (\<lparr>posts = [], stdout = [''Tool called: json''],
                 requests = [completion_request []]\<rparr>, Inl TypeError)"
    by (simp add: print_line_def log_request_def fresh_world_def)
qed

text \<open>
  C1, amended. The dispatcher looks the tool name up in the global symbol table of the
  module, not in the tool registry. For every tool invocation whose arguments deserialise
  and whose name that table does not bind, or binds to a false object, the loop body
  prints its line, takes the empty dict as result and serialises it into the tool message
  \<open>{}\<close> with the id of the invocation; nothing is raised. When all invocations of a
  response are of that kind, the pass appends the assistant message and those tool
  messages and goes on to the next completion request. A name the table binds to a true
  object is no such name, whether the registry has it or not.
\<close>

theorem unbound_tool_gives_empty_result:
  "(loads e (function_arguments tc) = Inr args \<and> no_tool e (function_name tc) \<longrightarrow>
      tool_result e tc w = (print_line (''Tool called: '' @ function_name tc) w, Inr (PDict []))
      \<and> dumps e (PDict []) = Some ''{}''
      \<and> handle_one e tc w
          = (print_line (''Tool called: '' @ function_name tc) w,
             Inr (MDict [(''role'', PStr ''tool''), (''content'', PStr ''{}''),
                         (''tool_call_id'', PStr (call_id tc))])))
   \<and> (create e w (completion_request msgs) = Inr resp \<and> choices resp = c # cs \<and>
      finish_reason c = ''tool_calls'' \<and> tool_calls (message c) = Some tcs \<and>
      list_all (\<lambda>tc. (\<exists>args. loads e (function_arguments tc) = Inr args) \<and>
        no_tool e (function_name tc)) tcs \<longrightarrow>
        chat_iteration e w msgs
          = Continue ((log_request w msgs)
                        \<lparr>stdout := stdout w @ map (\<lambda>tc. ''Tool called: '' @ function_name tc) tcs\<rparr>)
              (msgs @ [MObj (message c)] @ map (\<lambda>tc. tool_message ''{}'' (call_id tc)) tcs)
        \<and> chat_loop e w msgs
          = chat_loop e ((log_request w msgs)
                        \<lparr>stdout := stdout w @ map (\<lambda>tc. ''Tool called: '' @ function_name tc) tcs\<rparr>)
              (msgs @ [MObj (message c)] @ map (\<lambda>tc. tool_message ''{}'' (call_id tc)) tcs))
   \<and> (no_tool e n \<longleftrightarrow> globals_get e n = None \<or> (\<exists>obj. globals_get e n = Some obj \<and> \<not> truthy obj))
   \<and> (globals_get e n = Some (Data v) \<longrightarrow> (no_tool e n \<longleftrightarrow> \<not> truthy_value v))
   \<and> \<not> no_tool e ''json'' \<and> \<not> no_tool e ''os'' \<and> \<not> no_tool e ''push'' \<and> \<not> no_tool e ''__doc__''"
proof -
  have one: "tool_result e tc w = (print_line (''Tool called: '' @ function_name tc) w, Inr (PDict []))
      \<and> dumps e (PDict []) = Some ''{}''
      \<and> handle_one e tc w
          = (print_line (''Tool called: '' @ function_name tc) w,
             Inr (MDict [(''role'', PStr ''tool''), (''content'', PStr ''{}''),
                         (''tool_call_id'', PStr (call_id tc))]))"
    if h: "loads e (function_arguments tc) = Inr args \<and> no_tool e (function_name tc)"
  proof -
    from h have l: "loads e (function_arguments tc) = Inr args"
      and g: "no_tool e (function_name tc)" by simp_all
    from tool_result_no_tool [OF l g] handle_one_no_tool [OF l g] show ?thesis
      by (simp add: tool_message_def)
  qed
  have all: "chat_iteration e w msgs
          = Continue ((log_request w msgs)
                        \<lparr>stdout := stdout w @ map (\<lambda>tc. ''Tool called: '' @ function_name tc) tcs\<rparr>)
              (msgs @ [MObj (message c)] @ map (\<lambda>tc. tool_message ''{}'' (call_id tc)) tcs)
        \<and> chat_loop e w msgs
          = chat_loop e ((log_request w msgs)
                        \<lparr>stdout := stdout w @ map (\<lambda>tc. ''Tool called: '' @ function_name tc) tcs\<rparr>)
              (msgs @ [MObj (message c)] @ map (\<lambda>tc. tool_message ''{}'' (call_id tc)) tcs)"
    if h: "create e w (completion_request msgs) = Inr resp \<and> choices resp = c # cs \<and>
      finish_reason c = ''tool_calls'' \<and> tool_calls (message c) = Some tcs \<and>
      list_all (\<lambda>tc. (\<exists>args. loads e (function_arguments tc) = Inr args) \<and>
        no_tool e (function_name tc)) tcs"
  proof -
    from h have a: "create e w (completion_request msgs) = Inr resp" and b: "choices resp = c # cs"
      and c: "finish_reason c = ''tool_calls''" and d: "tool_calls (message c) = Some tcs"
      and u: "list_all (\<lambda>tc. (\<exists>args. loads e (function_arguments tc) = Inr args) \<and>
        no_tool e (function_name tc)) tcs"
      by simp_all
    have "handle_tool_call e (tool_calls (message c)) (log_request w msgs)
        = ((log_request w msgs)
              \<lparr>stdout := stdout w @ map (\<lambda>tc. ''Tool called: '' @ function_name tc) tcs\<rparr>,
           Inr (map (\<lambda>tc. tool_message ''{}'' (call_id tc)) tcs))"
      by (simp add: d handle_tool_call_def tool_loop_no_tool [OF u] log_request_def)
    then have it: "chat_iteration e w msgs
          = Continue ((log_request w msgs)
                        \<lparr>stdout := stdout w @ map (\<lambda>tc. ''Tool called: '' @ function_name tc) tcs\<rparr>)
              (msgs @ [MObj (message c)] @ map (\<lambda>tc. tool_message ''{}'' (call_id tc)) tcs)"
      by (simp add: chat_iteration_tool_calls [OF a b c])
    from it chat_loop_Continue [OF it] show ?thesis by simp
  qed
  have kind: "no_tool e n \<longleftrightarrow>
      globals_get e n = None \<or> (\<exists>obj. globals_get e n = Some obj \<and> \<not> truthy obj)"
    by (simp add: no_tool_def split: option.splits)
  have data: "no_tool e n \<longleftrightarrow> \<not> truthy_value v" if "globals_get e n = Some (Data v)"
    using that by (simp add: no_tool_def)
  have bound: "\<not> no_tool e ''json'' \<and> \<not> no_tool e ''os'' \<and> \<not> no_tool e ''push''
      \<and> \<not> no_tool e ''__doc__''"
    by (simp add: no_tool_def globals_json globals_os globals_push globals_doc)
  from one all kind data bound show ?thesis by (intro conjI impI) blast+
qed

theorem unbound_tool_gives_empty_result_witness:
  "loads (example_env [tool_response [weather_call, spec_call], stop_response ''bye''])
      (function_arguments weather_call) = Inr (PDict [])
   \<and> no_tool (example_env [tool_response [weather_call, spec_call], stop_response ''bye''])
        (function_name weather_call)
   \<and> no_tool (example_env [tool_response [weather_call, spec_call], stop_response ''bye''])
        (function_name spec_call)
   \<and> handle_one (example_env [tool_response [weather_call, spec_call], stop_response ''bye''])
        weather_call fresh_world
       = (\<lparr>posts = [], stdout = [''Tool called: lookup_weather''], requests = []\<rparr>,
          Inr (MDict [(''role'', PStr ''tool''), (''content'', PStr ''{}''),
                      (''tool_call_id'', PStr ''call_3'')]))
   \<and> chat_loop (example_env [tool_response [weather_call, spec_call], stop_response ''bye''])
        fresh_world []
       = Some (\<lparr>posts = [],
                 stdout = [''Tool called: lookup_weather'', ''Tool called: __spec__''],
                 requests = [completion_request [],
                             completion_request
                               [MObj \<lparr>content = None, tool_calls = Some [weather_call, spec_call]\<rparr>,
                                MDict [(''role'', PStr ''tool''), (''content'', PStr ''{}''),
                                       (''tool_call_id'', PStr ''call_3'')],
                                MDict [(''role'', PStr ''tool''), (''content'', PStr ''{}''),
                                       (''tool_call_id'', PStr ''call_6'')]]]\<rparr>,
               Inr (Some ''bye''))"
proof -
  let ?tcs = "[weather_call, spec_call]"
  let ?e = "example_env [tool_response ?tcs, stop_response ''bye'']"
  let ?c = "\<lparr>finish_reason = ''tool_calls'',
              message = \<lparr>content = None, tool_calls = Some ?tcs\<rparr>\<rparr>"
  let ?w1 = "(log_request fresh_world [])
               \<lparr>stdout := stdout fresh_world @ map (\<lambda>tc. ''Tool called: '' @ function_name tc) ?tcs\<rparr>"
  let ?m1 = "[] @ [MObj (message ?c)] @ map (\<lambda>tc. tool_message ''{}'' (call_id tc)) ?tcs"
  have l: "loads ?e (function_arguments weather_call) = Inr (PDict [])"
    by (simp add: example_env_def example_loads_def weather_call_def)
  have l2: "loads ?e (function_arguments spec_call) = Inr (PDict [])"
    by (simp add: example_env_def example_loads_def spec_call_def)
  have g: "no_tool ?e (function_name weather_call)"
    by (simp add: weather_call_def example_no_weather)
  have g2: "no_tool ?e (function_name spec_call)"
    by (simp add: spec_call_def no_tool_def example_spec)
  have a: "create ?e fresh_world (completion_request []) = Inr (tool_response ?tcs)"
    by (simp add: example_env_def scripted_def fresh_world_def)
  have b: "choices (tool_response ?tcs) = ?c # []" by (simp add: tool_response_def)
  have c: "finish_reason ?c = ''tool_calls''" by simp
  have d: "tool_calls (message ?c) = Some ?tcs" by simp
  have u: "list_all (\<lambda>tc. (\<exists>args. loads ?e (function_arguments tc) = Inr args) \<and>
        no_tool ?e (function_name tc)) ?tcs"
    using l l2 g g2 by simp
  from unbound_tool_gives_empty_result
    [where e = ?e and tc = weather_call and args = "PDict []" and w = fresh_world] l g
  have one: "handle_one ?e weather_call fresh_world
          = (print_line (''Tool called: '' @ function_name weather_call) fresh_world,
             Inr (MDict [(''role'', PStr ''tool''), (''content'', PStr ''{}''),
                         (''tool_call_id'', PStr (call_id weather_call))]))"
    by blast
  from unbound_tool_gives_empty_result
    [where e = ?e and w = fresh_world and msgs = "[]" and resp = "tool_response ?tcs"
      and c = ?c and cs = "[]" and tcs = ?tcs] a b c d u
  have step: "chat_loop ?e fresh_world [] = chat_loop ?e ?w1 ?m1"
    by blast
  have a2: "create ?e ?w1 (completion_request ?m1) = Inr (stop_response ''bye'')"
    by (simp add: example_env_def scripted_def fresh_world_def log_request_def)
  have b2: "choices (stop_response ''bye'')
      = \<lparr>finish_reason = ''stop'', message = \<lparr>content = Some ''bye'', tool_calls = None\<rparr>\<rparr> # []"
    by (simp add: stop_response_def)
  have "chat_iteration ?e ?w1 ?m1 = Stop (log_request ?w1 ?m1) (Inr (Some ''bye''))"
    using chat_iteration_stop [OF a2 b2] by simp
  from chat_loop_Stop [OF this] step
  have run: "chat_loop ?e fresh_world [] = Some (log_request ?w1 ?m1, Inr (Some ''bye''))"
    by simp
  have w: "log_request ?w1 ?m1
      = \<lparr>posts = [],
          stdout = [''Tool called: lookup_weather'', ''Tool called: __spec__''],
          requests = [completion_request [],
                      completion_request
                        [MObj \<lparr>content = None, tool_calls = Some ?tcs\<rparr>,
                         MDict [(''role'', PStr ''tool''), (''content'', PStr ''{}''),
                                (''tool_call_id'', PStr ''call_3'')],
                         MDict [(''role'', PStr ''tool''), (''content'', PStr ''{}''),
                                (''tool_call_id'', PStr ''call_6'')]]]\<rparr>"
    by (simp add: log_request_def fresh_world_def tool_message_def weather_call_def spec_call_def)
  have p: "print_line (''Tool called: '' @ function_name weather_call) fresh_world
      = \<lparr>posts = [], stdout = [''Tool called: lookup_weather''], requests = []\<rparr>"
    by (simp add: print_line_def fresh_world_def weather_call_def)
  have i: "call_id weather_call = ''call_3''" by (simp add: weather_call_def)
  from l g g2 one run show ?thesis unfolding w p i by simp
qed

subsection \<open>Claim C2\<close>

text \<open>
  C2, as the claim states it, fails: a response may ask for invocations whose handling
  raises. Here the model asks for the question tool and then for \<open>__doc__\<close>, the
  docstring of the module, which is bound and not callable. The first invocation is handled
  and its notification sent, the second raises a TypeError; the pass appends neither the
  assistant's message nor any tool message and issues no further completion request.
\<close>

theorem tool_results_counterexample:
  "create (example_env [tool_response [question_call, doc_call], stop_response ''bye''])
      fresh_world (completion_request [])
     = Inr (tool_response [question_call, doc_call])
   \<and> handle_tool_call (example_env [tool_response [question_call, doc_call], stop_response ''bye''])
        (Some [question_call, doc_call]) (log_request fresh_world [])
     = (\<lparr>posts = [pushover_request (example_env []) (PStr ''Recording What is your favorite color?'')],
         stdout = [''Tool called: record_unknown_question'', ''Tool called: __doc__''],
         requests = [completion_request []]\<rparr>,
        Inl TypeError)
   \<and> chat_iteration (example_env [tool_response [question_call, doc_call], stop_response ''bye''])
        fresh_world []
     = Stop \<lparr>posts = [pushover_request (example_env []) (PStr ''Recording What is your favorite color?'')],
              stdout = [''Tool called: record_unknown_question'', ''Tool called: __doc__''],
              requests = [completion_request []]\<rparr>
         (Inl TypeError)
   \<and> chat_loop (example_env [tool_response [question_call, doc_call], stop_response ''bye''])
        fresh_world []
     = Some (\<lparr>posts = [pushover_request (example_env []) (PStr ''Recording What is your favorite color?'')],
               stdout = [''Tool called: record_unknown_question'', ''Tool called: __doc__''],
               requests = [completion_request []]\<rparr>,
             Inl TypeError)"
proof -
  let ?e = "example_env [tool_response [question_call, doc_call], stop_response ''bye'']"
  let ?w = "\<lparr>posts = [pushover_request (example_env []) (PStr ''Recording What is your favorite color?'')],
              stdout = [''Tool called: record_unknown_question'', ''Tool called: __doc__''],
              requests = [completion_request []]\<rparr>"
  have a: "create ?e fresh_world (completion_request []) = Inr (tool_response [question_call, doc_call])"
    by (simp add: example_env_def scripted_def fresh_world_def)
  have h: "handle_tool_call ?e (Some [question_call, doc_call]) (log_request fresh_world [])
      = (?w, Inl TypeError)"
    by code_simp
  have b: "choices (tool_response [question_call, doc_call])
      = \<lparr>finish_reason = ''tool_calls'',
          message = \<lparr>content = None, tool_calls = Some [question_call, doc_call]\<rparr>\<rparr> # []"
    by (simp add: tool_response_def)
  have it: "chat_iteration ?e fresh_world [] = Stop ?w (Inl TypeError)"
    by (simp add: chat_iteration_tool_calls [OF a b] h)
  from a h it chat_loop_Stop [OF it] show ?thesis by (intro conjI)
qed

text \<open>
  C2, amended. When a response asks for the tool invocations \<open>tcs\<close> and the tool-handling
  step raises nothing, the step yields one tool message per invocation, in the order of the
  invocations: the \<open>i\<close>-th message carries the serialised result of the \<open>i\<close>-th invocation,
  run in the world the invocations before it left, and the id of that invocation. The pass
  appends the assistant's message and then these messages, issues no completion request
  meanwhile, and the next completion request of the run holds exactly the extended list.
\<close>

theorem tool_results_appended_in_order:
  assumes "create e w (completion_request msgs) = Inr resp"
    and "choices resp = c # cs"
    and "finish_reason c = ''tool_calls''"
    and "tool_calls (message c) = Some tcs"
    and "handle_tool_call e (Some tcs) (log_request w msgs) = (w', Inr results)"
  shows "length results = length tcs
       \<and> map (\<lambda>m. case m of MDict d \<Rightarrow> map_of d ''tool_call_id'' | MObj x \<Rightarrow> None) results
           = map (\<lambda>tc. Some (PStr (call_id tc))) tcs
       \<and> (\<exists>ws. length ws = Suc (length tcs) \<and> ws ! 0 = log_request w msgs \<and>
              ws ! length tcs = w' \<and>
              (\<forall>i<length tcs. \<exists>v s.
                  tool_result e (tcs ! i) (ws ! i) = (ws ! Suc i, Inr v) \<and> dumps e v = Some s \<and>
                  results ! i = MDict [(''role'', PStr ''tool''), (''content'', PStr s),
                                       (''tool_call_id'', PStr (call_id (tcs ! i)))]))
       \<and> chat_iteration e w msgs = Continue w' (msgs @ [MObj (message c)] @ results)
       \<and> chat_loop e w msgs = chat_loop e w' (msgs @ [MObj (message c)] @ results)
       \<and> requests w' = requests w @ [completion_request msgs]
       \<and> (\<forall>out. chat_loop e w msgs = Some out \<longrightarrow>
             (\<exists>rest. requests (fst out)
                = requests w @ completion_request msgs
                  # completion_request (msgs @ [MObj (message c)] @ results) # rest))"
proof -
  from assms(5) have loop: "tool_loop e tcs [] (log_request w msgs) = (w', Inr results)"
    by (simp add: handle_tool_call_def)
  from tool_loop_results [OF loop] obtain ms where "\<exists>ws. results = [] @ ms \<and>
      length ms = length tcs \<and> length ws = Suc (length tcs) \<and> ws ! 0 = log_request w msgs \<and>
      ws ! length tcs = w' \<and>
      (\<forall>i<length tcs. \<exists>v s. tool_result e (tcs ! i) (ws ! i) = (ws ! Suc i, Inr v) \<and>
          dumps e v = Some s \<and> ms ! i = tool_message s (call_id (tcs ! i)))" ..
  then obtain ws where all: "results = [] @ ms \<and>
      length ms = length tcs \<and> length ws = Suc (length tcs) \<and> ws ! 0 = log_request w msgs \<and>
      ws ! length tcs = w' \<and>
      (\<forall>i<length tcs. \<exists>v s. tool_result e (tcs ! i) (ws ! i) = (ws ! Suc i, Inr v) \<and>
          dumps e v = Some s \<and> ms ! i = tool_message s (call_id (tcs ! i)))" ..
  from all have ms: "ms = results" by simp
  from all have len: "length results = length tcs" unfolding ms by (elim conjE)
  from all have lw: "length ws = Suc (length tcs)" by (elim conjE)
  from all have w0: "ws ! 0 = log_request w msgs" by (elim conjE)
  from all have wn: "ws ! length tcs = w'" by (elim conjE)
  from all have each: "\<forall>i<length tcs. \<exists>v s.
      tool_result e (tcs ! i) (ws ! i) = (ws ! Suc i, Inr v) \<and> dumps e v = Some s \<and>
      results ! i = tool_message s (call_id (tcs ! i))"
    unfolding ms by (elim conjE)
  have ids: "map (\<lambda>m. case m of MDict d \<Rightarrow> map_of d ''tool_call_id'' | MObj x \<Rightarrow> None) results
           = map (\<lambda>tc. Some (PStr (call_id tc))) tcs"
  proof (rule nth_equalityI)
    show "length (map (\<lambda>m. case m of MDict d \<Rightarrow> map_of d ''tool_call_id'' | MObj x \<Rightarrow> None) results)
        = length (map (\<lambda>tc. Some (PStr (call_id tc))) tcs)"
      using len by simp
  next
    fix i
    assume "i < length (map (\<lambda>m. case m of MDict d \<Rightarrow> map_of d ''tool_call_id'' | MObj x \<Rightarrow> None) results)"
    then have i: "i < length tcs" using len by simp
    with each obtain v s where "results ! i = tool_message s (call_id (tcs ! i))" by blast
    with i len
    show "map (\<lambda>m. case m of MDict d \<Rightarrow> map_of d ''tool_call_id'' | MObj x \<Rightarrow> None) results ! i
        = map (\<lambda>tc. Some (PStr (call_id tc))) tcs ! i"
      by (simp add: tool_message_def)
  qed
  have worlds: "\<exists>ws. length ws = Suc (length tcs) \<and> ws ! 0 = log_request w msgs \<and>
              ws ! length tcs = w' \<and>
              (\<forall>i<length tcs. \<exists>v s.
                  tool_result e (tcs ! i) (ws ! i) = (ws ! Suc i, Inr v) \<and> dumps e v = Some s \<and>
                  results ! i = MDict [(''role'', PStr ''tool''), (''content'', PStr s),
                                       (''tool_call_id'', PStr (call_id (tcs ! i)))])"
    using lw w0 wn each unfolding tool_message_def by blast
  have it: "chat_iteration e w msgs = Continue w' (msgs @ [MObj (message c)] @ results)"
    using assms(4,5) by (simp add: chat_iteration_tool_calls [OF assms(1-3)])
  have next_pass: "chat_loop e w msgs = chat_loop e w' (msgs @ [MObj (message c)] @ results)"
    by (rule chat_loop_Continue [OF it])
  have rq: "requests w' = requests w @ [completion_request msgs]"
    by (rule chat_iteration_Continue_requests [OF it])
  have later: "\<forall>out. chat_loop e w msgs = Some out \<longrightarrow>
             (\<exists>rest. requests (fst out)
                = requests w @ completion_request msgs
                  # completion_request (msgs @ [MObj (message c)] @ results) # rest)"
  proof (intro allI impI)
    fix out assume "chat_loop e w msgs = Some out"
    then have "chat_loop e w' (msgs @ [MObj (message c)] @ results) = Some out"
      using next_pass by simp
    from chat_loop_first_request [OF this] obtain rest where
      "requests (fst out) = requests w' @ completion_request (msgs @ [MObj (message c)] @ results) # rest" ..
    then have "requests (fst out) = requests w @ completion_request msgs
                  # completion_request (msgs @ [MObj (message c)] @ results) # rest"
      using rq by simp
    then show "\<exists>rest. requests (fst out)
                = requests w @ completion_request msgs
                  # completion_request (msgs @ [MObj (message c)] @ results) # rest" ..
  qed
  from len ids worlds it next_pass rq later show ?thesis by (intro conjI)
qed

theorem tool_results_appended_in_order_witness:
  "create (example_env [tool_response [question_call, contact_call, weather_call], stop_response ''bye''])
      fresh_world (completion_request [])
     = Inr (tool_response [question_call, contact_call, weather_call])
   \<and> handle_tool_call
        (example_env [tool_response [question_call, contact_call, weather_call], stop_response ''bye''])
        (Some [question_call, contact_call, weather_call]) (log_request fresh_world [])
     = (\<lparr>posts = [pushover_request (example_env []) (PStr ''Recording What is your favorite color?''),
                  pushover_request (example_env [])
                    (PStr ''Recording Name not provided with email a@b.com and notes not provided'')],
         stdout = [''Tool called: record_unknown_question'', ''Tool called: record_user_details'',
                   ''Tool called: lookup_weather''],
         requests = [completion_request []]\<rparr>,
        Inr [tool_message (''{'' @ [CHR 0x22] @ ''recorded'' @ [CHR 0x22] @ '': '' @ [CHR 0x22] @ ''ok'' @ [CHR 0x22] @ ''}'') ''call_1'',
             tool_message (''{'' @ [CHR 0x22] @ ''recorded'' @ [CHR 0x22] @ '': '' @ [CHR 0x22] @ ''ok'' @ [CHR 0x22] @ ''}'') ''call_2'',
             tool_message ''{}'' ''call_3''])
   \<and> map_option (\<lambda>out. (map req_messages (requests (fst out)), snd out))
        (chat_loop
          (example_env [tool_response [question_call, contact_call, weather_call], stop_response ''bye''])
          fresh_world [])
     = Some ([[],
              [MObj \<lparr>content = None, tool_calls = Some [question_call, contact_call, weather_call]\<rparr>,
               tool_message (''{'' @ [CHR 0x22] @ ''recorded'' @ [CHR 0x22] @ '': '' @ [CHR 0x22] @ ''ok'' @ [CHR 0x22] @ ''}'') ''call_1'',
               tool_message (''{'' @ [CHR 0x22] @ ''recorded'' @ [CHR 0x22] @ '': '' @ [CHR 0x22] @ ''ok'' @ [CHR 0x22] @ ''}'') ''call_2'',
               tool_message ''{}'' ''call_3'']],
             Inr (Some ''bye''))"
proof -
  let ?tcs = "[question_call, contact_call, weather_call]"
  let ?e = "example_env [tool_response ?tcs, stop_response ''bye'']"
  let ?c = "\<lparr>finish_reason = ''tool_calls'', message = \<lparr>content = None, tool_calls = Some ?tcs\<rparr>\<rparr>"
  let ?ok = "''{'' @ [CHR 0x22] @ ''recorded'' @ [CHR 0x22] @ '': '' @ [CHR 0x22] @ ''ok'' @ [CHR 0x22] @ ''}''"
  let ?rs = "[tool_message ?ok ''call_1'', tool_message ?ok ''call_2'', tool_message ''{}'' ''call_3'']"
  let ?w1 = "\<lparr>posts = [pushover_request (example_env []) (PStr ''Recording What is your favorite color?''),
                  pushover_request (example_env [])
                    (PStr ''Recording Name not provided with email a@b.com and notes not provided'')],
         stdout = [''Tool called: record_unknown_question'', ''Tool called: record_user_details'',
                   ''Tool called: lookup_weather''],
         requests = [completion_request []]\<rparr>"
  have a: "create ?e fresh_world (completion_request []) = Inr (tool_response ?tcs)"
    by (simp add: example_env_def scripted_def fresh_world_def)
  have b: "choices (tool_response ?tcs) = ?c # []" by (simp add: tool_response_def)
  have c: "finish_reason ?c = ''tool_calls''" by simp
  have d: "tool_calls (message ?c) = Some ?tcs" by simp
  have h: "handle_tool_call ?e (Some ?tcs) (log_request fresh_world []) = (?w1, Inr ?rs)"
    by code_simp
  note inst = tool_results_appended_in_order [OF a b c d h]
  from inst have step: "chat_loop ?e fresh_world [] = chat_loop ?e ?w1 ([] @ [MObj (message ?c)] @ ?rs)"
    by (elim conjE)
  have a2: "create ?e ?w1 (completion_request ([] @ [MObj (message ?c)] @ ?rs)) = Inr (stop_response ''bye'')"
    by (simp add: example_env_def scripted_def)
  have b2: "choices (stop_response ''bye'')
      = \<lparr>finish_reason = ''stop'', message = \<lparr>content = Some ''bye'', tool_calls = None\<rparr>\<rparr> # []"
    by (simp add: stop_response_def)
  have "chat_iteration ?e ?w1 ([] @ [MObj (message ?c)] @ ?rs)
      = Stop (log_request ?w1 ([] @ [MObj (message ?c)] @ ?rs)) (Inr (Some ''bye''))"
    using chat_iteration_stop [OF a2 b2] by simp
  from chat_loop_Stop [OF this] step
  have run: "chat_loop ?e fresh_world []
      = Some (log_request ?w1 ([] @ [MObj (message ?c)] @ ?rs), Inr (Some ''bye''))"
    by simp
  have "map_option (\<lambda>out. (map req_messages (requests (fst out)), snd out)) (chat_loop ?e fresh_world [])
      = Some ([[], [MObj \<lparr>content = None, tool_calls = Some ?tcs\<rparr>] @ ?rs], Inr (Some ''bye''))"
    unfolding run by (simp add: log_request_def completion_request_def)
  with a h show ?thesis by simp
qed

subsection \<open>Claim C3\<close>

text \<open>
  C3, as the claim states it, fails: with a transport whose call raises, both handlers
  raise instead of returning their success result, and a chat whose model asks for the
  question tool ends with the transport's exception.
\<close>

theorem notifier_failure_counterexample:
  "post (offline_env []) fresh_world
      (pushover_request (offline_env []) (PStr ''Recording What is your favorite color?''))
     = Inl RequestException
   \<and> snd (record_unknown_question (offline_env []) (PStr ''What is your favorite color?'') fresh_world)
     = Inl RequestException
   \<and> snd (record_user_details (offline_env []) (PStr ''a@b.com'') (PStr ''Name not provided'')
            (PStr ''not provided'') fresh_world)
     = Inl RequestException
   \<and> map_option snd (chat (offline_env [tool_response [question_call], stop_response ''bye''])
        example_me ''hi'' [] fresh_world)
     = Some (Inl RequestException)"
proof (intro conjI)
  show "post (offline_env []) fresh_world
      (pushover_request (offline_env []) (PStr ''Recording What is your favorite color?''))
     = Inl RequestException"
    by (simp add: offline_env_def)
  show "snd (record_unknown_question (offline_env []) (PStr ''What is your favorite color?'') fresh_world)
     = Inl RequestException"
    by (simp add: record_unknown_question_def push_def offline_env_def)
  show "snd (record_user_details (offline_env []) (PStr ''a@b.com'') (PStr ''Name not provided'')
            (PStr ''not provided'') fresh_world)
     = Inl RequestException"
    by (simp add: record_user_details_def push_def offline_env_def)
  let ?e = "offline_env [tool_response [question_call], stop_response ''bye'']"
  let ?msgs = "[MDict [(''role'', PStr ''system''), (''content'', PStr (system_prompt example_me))]]
         @ [] @ [MDict [(''role'', PStr ''user''), (''content'', PStr ''hi'')]]"
  let ?c = "\<lparr>finish_reason = ''tool_calls'',
              message = \<lparr>content = None, tool_calls = Some [question_call]\<rparr>\<rparr>"
  have a: "create ?e fresh_world (completion_request ?msgs) = Inr (tool_response [question_call])"
    by (simp add: offline_env_def example_env_def scripted_def fresh_world_def)
  have b: "choices (tool_response [question_call]) = ?c # []" by (simp add: tool_response_def)
  have c: "finish_reason ?c = ''tool_calls''" by simp
  have d: "tool_calls (message ?c) = Some ([] @ question_call # [])" by simp
  have f: "tool_loop ?e [] [] (log_request fresh_world ?msgs) = (log_request fresh_world ?msgs, Inr [])"
    by simp
  have n: "function_name question_call = ''record_unknown_question''"
    by (simp add: question_call_def)
  have l: "loads ?e (function_arguments question_call)
      = Inr (PDict [(''question'', PStr ''What is your favorite color?'')])"
    by (simp add: offline_env_def example_env_def example_loads_def question_call_def)
  have p: "post ?e w r = Inl RequestException" for w r
    by (simp add: offline_env_def)
  have "snd (tool_result ?e question_call (log_request fresh_world ?msgs)) = Inl RequestException"
    unfolding tool_result_record_unknown_question [OF n l]
    by (simp add: record_unknown_question_raises [OF p])
  then obtain w2 where t: "tool_result ?e question_call (log_request fresh_world ?msgs)
      = (w2, Inl RequestException)"
    by (cases "tool_result ?e question_call (log_request fresh_world ?msgs)") simp
  from chat_loop_tool_raises [OF a b c d f t]
  show "map_option snd (chat ?e example_me ''hi'' [] fresh_world) = Some (Inl RequestException)"
    by (simp add: chat_def)
qed

text \<open>
  C3, amended. A failure of the notification transport that comes back as an HTTP
  response, whatever its status, is not surfaced: \<open>push\<close> drops the response and each
  handler returns its success result. An exception raised by the outbound call is caught
  nowhere. \<open>push\<close> raises it and so does each of the two handlers; the dispatcher runs
  an invocation of \<open>record_unknown_question\<close>, of \<open>record_user_details\<close> (with any
  arguments that fit its signature) and of \<open>push\<close> as that very function, so the loop
  body raises it too; the tool-handling step raises whatever one of its invocations
  raises, once the invocations before it are done; and \<open>chat\<close> ends with it, in the
  world the failed call left, without a further completion request.
\<close>

theorem notifier_exception_propagates:
  fixes e :: env and w w1 w2 :: world and msgs :: "msg list" and resp :: response
    and c :: choice and cs :: "choice list" and before rest :: "tool_call list"
    and tc :: tool_call and rs :: "msg list" and kwargs :: "(string \<times> pyval) list"
    and q a n extra t :: pyval and err :: error and status :: nat
  defines "reached \<equiv>
      create e w (completion_request msgs) = Inr resp \<and> choices resp = c # cs \<and>
      finish_reason c = ''tool_calls'' \<and> tool_calls (message c) = Some (before @ tc # rest) \<and>
      tool_loop e before [] (log_request w msgs) = (w1, Inr rs)"
    and "question_text \<equiv> PStr (''Recording '' @ format_value e q)"
    and "contact_text \<equiv> PStr (''Recording '' @ format_value e n @ '' with email '' @
          format_value e a @ '' and notes '' @ format_value e extra)"
    and "given_name \<equiv> (case map_of kwargs ''name'' of None \<Rightarrow> PStr ''Name not provided'' | Some v \<Rightarrow> v)"
    and "given_notes \<equiv> (case map_of kwargs ''notes'' of None \<Rightarrow> PStr ''not provided'' | Some v \<Rightarrow> v)"
  shows
    "(post e w (pushover_request e t) = Inr status \<longrightarrow>
        push e t w = (w\<lparr>posts := posts w @ [pushover_request e t]\<rparr>, Inr PNone))
     \<and> (post e w (pushover_request e question_text) = Inr status \<longrightarrow>
        record_unknown_question e q w
          = (w\<lparr>posts := posts w @ [pushover_request e question_text]\<rparr>,
             Inr (PDict [(''recorded'', PStr ''ok'')])))
     \<and> (post e w (pushover_request e contact_text) = Inr status \<longrightarrow>
        record_user_details e a n extra w
          = (w\<lparr>posts := posts w @ [pushover_request e contact_text]\<rparr>,
             Inr (PDict [(''recorded'', PStr ''ok'')])))
     \<and> (post e w (pushover_request e t) = Inl err \<longrightarrow>
        push e t w = (w\<lparr>posts := posts w @ [pushover_request e t]\<rparr>, Inl err))
     \<and> (post e w (pushover_request e question_text) = Inl err \<longrightarrow>
        record_unknown_question e q w
          = (w\<lparr>posts := posts w @ [pushover_request e question_text]\<rparr>, Inl err))
     \<and> (post e w (pushover_request e contact_text) = Inl err \<longrightarrow>
        record_user_details e a n extra w
          = (w\<lparr>posts := posts w @ [pushover_request e contact_text]\<rparr>, Inl err))
     \<and> (function_name tc = ''record_unknown_question'' \<and>
        loads e (function_arguments tc) = Inr (PDict [(''question'', q)]) \<longrightarrow>
        tool_result e tc w1
          = record_unknown_question e q (print_line ''Tool called: record_unknown_question'' w1))
     \<and> (function_name tc = ''record_user_details'' \<and>
        loads e (function_arguments tc) = Inr (PDict kwargs) \<and>
        \<not> unexpected_keyword [''email'', ''name'', ''notes''] kwargs \<and>
        map_of kwargs ''email'' = Some a \<longrightarrow>
        tool_result e tc w1
          = record_user_details e a given_name given_notes
              (print_line ''Tool called: record_user_details'' w1))
     \<and> (function_name tc = ''push'' \<and>
        loads e (function_arguments tc) = Inr (PDict [(''text'', t)]) \<longrightarrow>
        tool_result e tc w1 = push e t (print_line ''Tool called: push'' w1))
     \<and> (tool_result e tc w1 = (w2, Inl err) \<longrightarrow> handle_one e tc w1 = (w2, Inl err))
     \<and> (reached \<and> tool_result e tc w1 = (w2, Inl err) \<longrightarrow>
        handle_tool_call e (Some (before @ tc # rest)) (log_request w msgs) = (w2, Inl err)
        \<and> chat_iteration e w msgs = Stop w2 (Inl err)
        \<and> chat_loop e w msgs = Some (w2, Inl err)
        \<and> requests w2 = requests w @ [completion_request msgs])
     \<and> (reached \<and> function_name tc = ''record_unknown_question'' \<and>
        loads e (function_arguments tc) = Inr (PDict [(''question'', q)]) \<and>
        post e (print_line ''Tool called: record_unknown_question'' w1)
          (pushover_request e question_text) = Inl err \<longrightarrow>
        chat_loop e w msgs
          = Some ((print_line ''Tool called: record_unknown_question'' w1)
                    \<lparr>posts := posts w1 @ [pushover_request e question_text]\<rparr>, Inl err))
     \<and> (reached \<and> function_name tc = ''record_user_details'' \<and>
        loads e (function_arguments tc) = Inr (PDict kwargs) \<and>
        \<not> unexpected_keyword [''email'', ''name'', ''notes''] kwargs \<and>
        map_of kwargs ''email'' = Some a \<and>
        post e (print_line ''Tool called: record_user_details'' w1)
          (pushover_request e (PStr (''Recording '' @ format_value e given_name @ '' with email '' @
             format_value e a @ '' and notes '' @ format_value e given_notes))) = Inl err \<longrightarrow>
        chat_loop e w msgs
          = Some ((print_line ''Tool called: record_user_details'' w1)
                    \<lparr>posts := posts w1 @ [pushover_request e
                        (PStr (''Recording '' @ format_value e given_name @ '' with email '' @
                           format_value e a @ '' and notes '' @ format_value e given_notes))]\<rparr>,
                  Inl err))
     \<and> (reached \<and> function_name tc = ''push'' \<and>
        loads e (function_arguments tc) = Inr (PDict [(''text'', t)]) \<and>
        post e (print_line ''Tool called: push'' w1) (pushover_request e t) = Inl err \<longrightarrow>
        chat_loop e w msgs
          = Some ((print_line ''Tool called: push'' w1)
                    \<lparr>posts := posts w1 @ [pushover_request e t]\<rparr>, Inl err))"
proof -
  have ends: "handle_tool_call e (Some (before @ tc # rest)) (log_request w msgs) = (w', Inl err)
        \<and> chat_iteration e w msgs = Stop w' (Inl err)
        \<and> chat_loop e w msgs = Some (w', Inl err)
        \<and> requests w' = requests w @ [completion_request msgs]"
    if r: reached and t: "tool_result e tc w1 = (w', Inl err)" for w'
  proof -
    from r have a: "create e w (completion_request msgs) = Inr resp" and b: "choices resp = c # cs"
      and c: "finish_reason c = ''tool_calls''"
      and d: "tool_calls (message c) = Some (before @ tc # rest)"
      and f: "tool_loop e before [] (log_request w msgs) = (w1, Inr rs)"
      by (simp_all add: reached_def)
    have h: "handle_tool_call e (Some (before @ tc # rest)) (log_request w msgs) = (w', Inl err)"
      by (rule handle_tool_call_raises [OF f t])
    then have it: "chat_iteration e w msgs = Stop w' (Inl err)"
      by (simp add: chat_iteration_tool_calls [OF a b c] d)
    from h it chat_loop_Stop [OF it] chat_iteration_Stop_requests [OF it] show ?thesis by simp
  qed
  have c1: "push e t w = (w\<lparr>posts := posts w @ [pushover_request e t]\<rparr>, Inr PNone)"
    if "post e w (pushover_request e t) = Inr status"
    by (rule push_returns [OF that])
  have c2: "record_unknown_question e q w
          = (w\<lparr>posts := posts w @ [pushover_request e question_text]\<rparr>,
             Inr (PDict [(''recorded'', PStr ''ok'')]))"
    if "post e w (pushover_request e question_text) = Inr status"
    using that unfolding question_text_def by (rule record_unknown_question_returns)
  have c3: "record_user_details e a n extra w
          = (w\<lparr>posts := posts w @ [pushover_request e contact_text]\<rparr>,
             Inr (PDict [(''recorded'', PStr ''ok'')]))"
    if "post e w (pushover_request e contact_text) = Inr status"
    using that unfolding contact_text_def by (rule record_user_details_returns)
  have c4: "push e t w = (w\<lparr>posts := posts w @ [pushover_request e t]\<rparr>, Inl err)"
    if "post e w (pushover_request e t) = Inl err"
    by (rule push_raises [OF that])
  have c5: "record_unknown_question e q w
          = (w\<lparr>posts := posts w @ [pushover_request e question_text]\<rparr>, Inl err)"
    if "post e w (pushover_request e question_text) = Inl err"
    using that unfolding question_text_def by (rule record_unknown_question_raises)
  have c6: "record_user_details e a n extra w
          = (w\<lparr>posts := posts w @ [pushover_request e contact_text]\<rparr>, Inl err)"
    if "post e w (pushover_request e contact_text) = Inl err"
    using that unfolding contact_text_def by (rule record_user_details_raises)
  have c7: "tool_result e tc w1
          = record_unknown_question e q (print_line ''Tool called: record_unknown_question'' w1)"
    if "function_name tc = ''record_unknown_question'' \<and>
        loads e (function_arguments tc) = Inr (PDict [(''question'', q)])"
    using that by (simp add: tool_result_record_unknown_question)
  have c8: "tool_result e tc w1
          = record_user_details e a given_name given_notes
              (print_line ''Tool called: record_user_details'' w1)"
    if "function_name tc = ''record_user_details'' \<and>
        loads e (function_arguments tc) = Inr (PDict kwargs) \<and>
        \<not> unexpected_keyword [''email'', ''name'', ''notes''] kwargs \<and>
        map_of kwargs ''email'' = Some a"
    using that unfolding given_name_def given_notes_def
    by (simp add: tool_result_record_user_details)
  have c9: "tool_result e tc w1 = push e t (print_line ''Tool called: push'' w1)"
    if "function_name tc = ''push'' \<and>
        loads e (function_arguments tc) = Inr (PDict [(''text'', t)])"
    using that by (simp add: tool_result_push)
  have c10: "handle_one e tc w1 = (w2, Inl err)" if "tool_result e tc w1 = (w2, Inl err)"
    by (rule handle_one_raises [OF that])
  have c11: "handle_tool_call e (Some (before @ tc # rest)) (log_request w msgs) = (w2, Inl err)
        \<and> chat_iteration e w msgs = Stop w2 (Inl err)
        \<and> chat_loop e w msgs = Some (w2, Inl err)
        \<and> requests w2 = requests w @ [completion_request msgs]"
    if "reached \<and> tool_result e tc w1 = (w2, Inl err)"
    using that ends [of w2] by simp
  have c12: "chat_loop e w msgs
          = Some ((print_line ''Tool called: record_unknown_question'' w1)
                    \<lparr>posts := posts w1 @ [pushover_request e question_text]\<rparr>, Inl err)"
    if h: "reached \<and> function_name tc = ''record_unknown_question'' \<and>
        loads e (function_arguments tc) = Inr (PDict [(''question'', q)]) \<and>
        post e (print_line ''Tool called: record_unknown_question'' w1)
          (pushover_request e question_text) = Inl err"
  proof -
    from h have r: reached and n: "function_name tc = ''record_unknown_question''"
      and l: "loads e (function_arguments tc) = Inr (PDict [(''question'', q)])"
      and p: "post e (print_line ''Tool called: record_unknown_question'' w1)
          (pushover_request e (PStr (''Recording '' @ format_value e q))) = Inl err"
      by (simp_all add: question_text_def)
    have "tool_result e tc w1
        = ((print_line ''Tool called: record_unknown_question'' w1)
              \<lparr>posts := posts w1 @ [pushover_request e question_text]\<rparr>, Inl err)"
      unfolding tool_result_record_unknown_question [OF n l] question_text_def
      using record_unknown_question_raises [OF p] by (simp add: print_line_def)
    from ends [OF r this] show ?thesis by simp
  qed
  have c13: "chat_loop e w msgs
          = Some ((print_line ''Tool called: record_user_details'' w1)
                    \<lparr>posts := posts w1 @ [pushover_request e
                        (PStr (''Recording '' @ format_value e given_name @ '' with email '' @
                           format_value e a @ '' and notes '' @ format_value e given_notes))]\<rparr>,
                  Inl err)"
    if h: "reached \<and> function_name tc = ''record_user_details'' \<and>
        loads e (function_arguments tc) = Inr (PDict kwargs) \<and>
        \<not> unexpected_keyword [''email'', ''name'', ''notes''] kwargs \<and>
        map_of kwargs ''email'' = Some a \<and>
        post e (print_line ''Tool called: record_user_details'' w1)
          (pushover_request e (PStr (''Recording '' @ format_value e given_name @ '' with email '' @
             format_value e a @ '' and notes '' @ format_value e given_notes))) = Inl err"
  proof -
    from h have r: reached and n: "function_name tc = ''record_user_details''"
      and l: "loads e (function_arguments tc) = Inr (PDict kwargs)"
      and k: "\<not> unexpected_keyword [''email'', ''name'', ''notes''] kwargs"
      and m: "map_of kwargs ''email'' = Some a"
      and p: "post e (print_line ''Tool called: record_user_details'' w1)
          (pushover_request e (PStr (''Recording '' @ format_value e given_name @ '' with email '' @
             format_value e a @ '' and notes '' @ format_value e given_notes))) = Inl err"
      by simp_all
    have "tool_result e tc w1
        = ((print_line ''Tool called: record_user_details'' w1)
                    \<lparr>posts := posts w1 @ [pushover_request e
                        (PStr (''Recording '' @ format_value e given_name @ '' with email '' @
                           format_value e a @ '' and notes '' @ format_value e given_notes))]\<rparr>,
           Inl err)"
      unfolding tool_result_record_user_details [OF n l k m]
      using record_user_details_raises [OF p]
      by (simp add: print_line_def given_name_def given_notes_def)
    from ends [OF r this] show ?thesis by simp
  qed
  have c14: "chat_loop e w msgs
          = Some ((print_line ''Tool called: push'' w1)
                    \<lparr>posts := posts w1 @ [pushover_request e t]\<rparr>, Inl err)"
    if h: "reached \<and> function_name tc = ''push'' \<and>
        loads e (function_arguments tc) = Inr (PDict [(''text'', t)]) \<and>
        post e (print_line ''Tool called: push'' w1) (pushover_request e t) = Inl err"
  proof -
    from h have r: reached and n: "function_name tc = ''push''"
      and l: "loads e (function_arguments tc) = Inr (PDict [(''text'', t)])"
      and p: "post e (print_line ''Tool called: push'' w1) (pushover_request e t) = Inl err"
      by simp_all
    have "tool_result e tc w1
        = ((print_line ''Tool called: push'' w1)\<lparr>posts := posts w1 @ [pushover_request e t]\<rparr>,
           Inl err)"
      unfolding tool_result_push [OF n l]
      using push_raises [OF p] by (simp add: print_line_def)
    from ends [OF r this] show ?thesis by simp
  qed
  show ?thesis
    by (intro conjI; rule impI;
        (rule c1 | rule c2 | rule c3 | rule c4 | rule c5 | rule c6 | rule c7 | rule c8 | rule c9
          | rule c10 | rule c11 | rule c12 | rule c13 | rule c14);
        assumption)
qed

theorem notifier_exception_propagates_witness:
  "post (offline_env [tool_response [weather_call, contact_call, question_call], stop_response ''bye''])
       \<lparr>posts = [], stdout = [''Tool called: lookup_weather'', ''Tool called: record_user_details''],
          requests = [completion_request []]\<rparr>
       (pushover_request
          (offline_env [tool_response [weather_call, contact_call, question_call], stop_response ''bye''])
          (PStr ''Recording Name not provided with email a@b.com and notes not provided''))
     = Inl RequestException
   \<and> chat_loop
        (offline_env [tool_response [weather_call, contact_call, question_call], stop_response ''bye''])
        fresh_world []
     = Some (\<lparr>posts = [\<lparr>url = ''https://api.pushover.net/1/messages.json'',
                    data = [(''user'', PStr ''user-key''), (''token'', PStr ''app-token''),
                            (''message'', PStr ''Recording Name not provided with email a@b.com and notes not provided'')]\<rparr>],
               stdout = [''Tool called: lookup_weather'', ''Tool called: record_user_details''],
               requests = [completion_request []]\<rparr>,
             Inl RequestException)
   \<and> post (example_env []) fresh_world
       (pushover_request (example_env [])
          (PStr (''Recording '' @ format_value (example_env []) (PStr ''What is your favorite color?''))))
     = Inr 200
   \<and> snd (record_unknown_question (example_env []) (PStr ''What is your favorite color?'') fresh_world)
     = Inr (PDict [(''recorded'', PStr ''ok'')])"
proof -
  let ?tcs = "[weather_call, contact_call, question_call]"
  let ?e = "offline_env [tool_response ?tcs, stop_response ''bye'']"
  let ?q = "PStr ''What is your favorite color?''"
  let ?a = "PStr ''a@b.com''"
  let ?kw = "[(''email'', ?a)]"
  let ?gn = "(case map_of ?kw ''name'' of None \<Rightarrow> PStr ''Name not provided'' | Some v \<Rightarrow> v)"
  let ?gt = "(case map_of ?kw ''notes'' of None \<Rightarrow> PStr ''not provided'' | Some v \<Rightarrow> v)"
  let ?text = "PStr (''Recording '' @ format_value ?e ?gn @ '' with email '' @
             format_value ?e ?a @ '' and notes '' @ format_value ?e ?gt)"
  let ?c = "\<lparr>finish_reason = ''tool_calls'',
              message = \<lparr>content = None, tool_calls = Some ?tcs\<rparr>\<rparr>"
  let ?w1 = "\<lparr>posts = [], stdout = [''Tool called: lookup_weather''],
               requests = [completion_request []]\<rparr>"
  have a: "create ?e fresh_world (completion_request []) = Inr (tool_response ?tcs)"
    by (simp add: offline_env_def example_env_def scripted_def fresh_world_def)
  have b: "choices (tool_response ?tcs) = ?c # []" by (simp add: tool_response_def)
  have c: "finish_reason ?c = ''tool_calls''" by simp
  have d: "tool_calls (message ?c) = Some ([weather_call] @ contact_call # [question_call])" by simp
  have lw: "loads ?e (function_arguments weather_call) = Inr (PDict [])"
    by (simp add: offline_env_def example_env_def example_loads_def weather_call_def)
  have gw: "no_tool ?e (function_name weather_call)"
    by (simp add: weather_call_def no_tool_def globals_get_def py_globals_def run_as_main_def
        offline_env_def example_env_def)
  have h1: "handle_one ?e weather_call (log_request fresh_world [])
      = (?w1, Inr (tool_message ''{}'' ''call_3''))"
    unfolding handle_one_no_tool [OF lw gw]
    by (simp add: print_line_def log_request_def fresh_world_def weather_call_def)
  have f: "tool_loop ?e [weather_call] [] (log_request fresh_world [])
      = (?w1, Inr [tool_message ''{}'' ''call_3''])"
    by (simp add: h1)
  have n: "function_name contact_call = ''record_user_details''"
    by (simp add: contact_call_def)
  have l: "loads ?e (function_arguments contact_call) = Inr (PDict ?kw)"
    by (simp add: offline_env_def example_env_def example_loads_def contact_call_def)
  have k: "\<not> unexpected_keyword [''email'', ''name'', ''notes''] ?kw"
    by (simp add: unexpected_keyword_def)
  have m: "map_of ?kw ''email'' = Some ?a" by simp
  have p: "post ?e (print_line ''Tool called: record_user_details'' ?w1) (pushover_request ?e ?text)
      = Inl RequestException"
    by (simp add: offline_env_def)
  have p2: "post (example_env []) fresh_world
       (pushover_request (example_env []) (PStr (''Recording '' @ format_value (example_env []) ?q)))
     = Inr 200"
    by (simp add: example_env_def)
  note inst = notifier_exception_propagates
    [where e = ?e and w = fresh_world and msgs = "[]" and resp = "tool_response ?tcs"
      and c = ?c and cs = "[]" and before = "[weather_call]" and tc = contact_call
      and rest = "[question_call]" and ?w1.0 = ?w1 and rs = "[tool_message ''{}'' ''call_3'']"
      and kwargs = ?kw and a = ?a and err = RequestException]
  note contact = inst [THEN conjunct2, THEN conjunct2, THEN conjunct2, THEN conjunct2,
      THEN conjunct2, THEN conjunct2, THEN conjunct2, THEN conjunct2, THEN conjunct2,
      THEN conjunct2, THEN conjunct2, THEN conjunct2, THEN conjunct1]
  have run: "chat_loop ?e fresh_world []
          = Some ((print_line ''Tool called: record_user_details'' ?w1)
               \<lparr>posts := posts ?w1 @ [pushover_request ?e ?text]\<rparr>,
             Inl RequestException)"
    by (rule mp [OF contact]) (intro conjI a b c d f n l k m p)
  note returns = notifier_exception_propagates
    [where e = "example_env []" and w = fresh_world and q = ?q and status = 200,
      THEN conjunct2, THEN conjunct1]
  have ok: "record_unknown_question (example_env []) ?q fresh_world
      = (fresh_world\<lparr>posts := posts fresh_world @
            [pushover_request (example_env []) (PStr (''Recording '' @ format_value (example_env []) ?q))]\<rparr>,
         Inr (PDict [(''recorded'', PStr ''ok'')]))"
    by (rule mp [OF returns]) (rule p2)
  have w: "(print_line ''Tool called: record_user_details'' ?w1)
               \<lparr>posts := posts ?w1 @ [pushover_request ?e ?text]\<rparr>
      = \<lparr>posts = [\<lparr>url = ''https://api.pushover.net/1/messages.json'',
                    data = [(''user'', PStr ''user-key''), (''token'', PStr ''app-token''),
                            (''message'', PStr ''Recording Name not provided with email a@b.com and notes not provided'')]\<rparr>],
               stdout = [''Tool called: lookup_weather'', ''Tool called: record_user_details''],
               requests = [completion_request []]\<rparr>"
    by (simp add: print_line_def pushover_request_def format_value_def getenv_value_def
        offline_env_def example_env_def)
  have p': "post ?e
       \<lparr>posts = [], stdout = [''Tool called: lookup_weather'', ''Tool called: record_user_details''],
          requests = [completion_request []]\<rparr>
       (pushover_request ?e
          (PStr ''Recording Name not provided with email a@b.com and notes not provided''))
     = Inl RequestException"
    by (simp add: offline_env_def)
  from p' p2 run ok show ?thesis unfolding w by simp
qed

subsection \<open>Claim C4\<close>

text \<open>
  C4. When the first response of the completion API has a termination reason other than
  \<open>tool_calls\<close>, \<open>chat\<close> returns the text content of that response; the run has issued
  that one completion request and nothing else: no line of a tool handler is printed and no
  notification is sent.
\<close>

theorem chat_returns_first_answer:
  fixes self :: me and history :: "msg list" and user_message :: string
  defines "msgs \<equiv> [MDict [(''role'', PStr ''system''), (''content'', PStr (system_prompt self))]]
                    @ history
                    @ [MDict [(''role'', PStr ''user''), (''content'', PStr user_message)]]"
  assumes "create e w (completion_request msgs) = Inr resp"
    and "choices resp = c # cs"
    and "finish_reason c \<noteq> ''tool_calls''"
  shows "chat e self user_message history w = Some (log_request w msgs, Inr (content (message c)))
       \<and> posts (log_request w msgs) = posts w
       \<and> stdout (log_request w msgs) = stdout w
       \<and> requests (log_request w msgs) = requests w @ [completion_request msgs]"
proof -
  have "chat_iteration e w msgs = Stop (log_request w msgs) (Inr (content (message c)))"
    using assms(2-4) by (simp add: chat_iteration_def)
  then have "chat_loop e w msgs = Some (log_request w msgs, Inr (content (message c)))"
    by (rule chat_loop_Stop)
  then show ?thesis
    by (simp add: chat_def msgs_def log_request_def)
qed

theorem chat_returns_first_answer_witness:
  "create (example_env [stop_response ''Hello!'']) fresh_world
      (completion_request ([MDict [(''role'', PStr ''system''), (''content'', PStr (system_prompt example_me))]]
         @ [] @ [MDict [(''role'', PStr ''user''), (''content'', PStr ''hi'')]]))
     = Inr (stop_response ''Hello!'')
   \<and> choices (stop_response ''Hello!'')
       = [\<lparr>finish_reason = ''stop'', message = \<lparr>content = Some ''Hello!'', tool_calls = None\<rparr>\<rparr>]
   \<and> finish_reason \<lparr>finish_reason = ''stop'', message = \<lparr>content = Some ''Hello!'', tool_calls = None\<rparr>\<rparr>
       \<noteq> ''tool_calls''
   \<and> map_option snd (chat (example_env [stop_response ''Hello!'']) example_me ''hi'' [] fresh_world)
       = Some (Inr (Some ''Hello!''))"
proof -
  have h1: "create (example_env [stop_response ''Hello!'']) fresh_world
      (completion_request ([MDict [(''role'', PStr ''system''), (''content'', PStr (system_prompt example_me))]]
         @ [] @ [MDict [(''role'', PStr ''user''), (''content'', PStr ''hi'')]]))
     = Inr (stop_response ''Hello!'')"
    by (simp add: example_env_def scripted_def fresh_world_def)
  have h2: "choices (stop_response ''Hello!'')
       = [\<lparr>finish_reason = ''stop'', message = \<lparr>content = Some ''Hello!'', tool_calls = None\<rparr>\<rparr>]"
    by (simp add: stop_response_def)
  have h3: "finish_reason \<lparr>finish_reason = ''stop'', message = \<lparr>content = Some ''Hello!'', tool_calls = None\<rparr>\<rparr>
       \<noteq> ''tool_calls''"
    by simp
  from chat_returns_first_answer [OF h1 h2 h3] h1 h2 h3 show ?thesis by simp
qed

subsection \<open>Claim C5\<close>

text \<open>
  C5. The handler for an unanswered question makes exactly one outbound call, whose
  message is \<open>Recording\<close> followed by the question (a string question as it is), and,
  when that call returns, the handler returns \<open>{"recorded": "ok"}\<close>; so does a call of
  the handler with the keyword argument \<open>question\<close>.
\<close>

theorem record_unknown_question_notifies_once:
  "posts (fst (record_unknown_question e q w))
     = posts w @ [pushover_request e (PStr (''Recording '' @ format_value e q))]
   \<and> format_value e (PStr s) = s
   \<and> data (pushover_request e (PStr (''Recording '' @ s)))
       = [(''user'', getenv_value e ''PUSHOVER_USER''), (''token'', getenv_value e ''PUSHOVER_TOKEN''),
          (''message'', PStr (''Recording '' @ s))]
   \<and> (post e w (pushover_request e (PStr (''Recording '' @ format_value e q))) = Inr status \<longrightarrow>
        record_unknown_question e q w
          = (w\<lparr>posts := posts w @ [pushover_request e (PStr (''Recording '' @ format_value e q))]\<rparr>,
             Inr (PDict [(''recorded'', PStr ''ok'')])))
   \<and> call_record_unknown_question e [(''question'', q)] w = record_unknown_question e q w"
proof (intro conjI impI)
  show "posts (fst (record_unknown_question e q w))
     = posts w @ [pushover_request e (PStr (''Recording '' @ format_value e q))]"
    by (simp only: record_unknown_question_world push_posts)
  show "format_value e (PStr s) = s"
    by (simp add: format_value_def)
  show "data (pushover_request e (PStr (''Recording '' @ s)))
       = [(''user'', getenv_value e ''PUSHOVER_USER''), (''token'', getenv_value e ''PUSHOVER_TOKEN''),
          (''message'', PStr (''Recording '' @ s))]"
    by (simp add: pushover_request_def)
  show "call_record_unknown_question e [(''question'', q)] w = record_unknown_question e q w"
    by (simp add: call_record_unknown_question_def unexpected_keyword_def)
next
  assume "post e w (pushover_request e (PStr (''Recording '' @ format_value e q))) = Inr status"
  from push_returns [OF this]
  show "record_unknown_question e q w
          = (w\<lparr>posts := posts w @ [pushover_request e (PStr (''Recording '' @ format_value e q))]\<rparr>,
             Inr (PDict [(''recorded'', PStr ''ok'')]))"
    by (simp add: record_unknown_question_def)
qed

theorem record_unknown_question_notifies_once_witness:
  "post (example_env []) fresh_world
       (pushover_request (example_env [])
          (PStr (''Recording '' @ format_value (example_env []) (PStr ''What is your favorite color?''))))
     = Inr 200
   \<and> record_unknown_question (example_env []) (PStr ''What is your favorite color?'') fresh_world
     = (\<lparr>posts = [\<lparr>url = ''https://api.pushover.net/1/messages.json'',
                    data = [(''user'', PStr ''user-key''), (''token'', PStr ''app-token''),
                            (''message'', PStr ''Recording What is your favorite color?'')]\<rparr>],
         stdout = [], requests = []\<rparr>,
        Inr (PDict [(''recorded'', PStr ''ok'')]))"
proof -
  have h: "post (example_env []) fresh_world
       (pushover_request (example_env [])
          (PStr (''Recording '' @ format_value (example_env []) (PStr ''What is your favorite color?''))))
     = Inr 200"
    by (simp add: example_env_def)
  from record_unknown_question_notifies_once
    [of "example_env []" "PStr ''What is your favorite color?''" fresh_world
        "''What is your favorite color?''" 200] h
  have "record_unknown_question (example_env []) (PStr ''What is your favorite color?'') fresh_world
          = (fresh_world\<lparr>posts := posts fresh_world @ [pushover_request (example_env [])
               (PStr (''Recording '' @ format_value (example_env []) (PStr ''What is your favorite color?'')))]\<rparr>,
             Inr (PDict [(''recorded'', PStr ''ok'')]))"
    by blast
  then show ?thesis using h
    by (simp add: fresh_world_def pushover_request_def format_value_def getenv_value_def example_env_def)
qed

subsection \<open>Claim C6\<close>

text \<open>
  C6. Called with an email as its only keyword argument, the handler for contact details
  takes \<open>Name not provided\<close> for the name and \<open>not provided\<close> for the notes, makes one
  outbound call whose message holds both, and, when that call returns, returns
  \<open>{"recorded": "ok"}\<close>.
\<close>

theorem record_user_details_defaults:
  "call_record_user_details e [(''email'', a)] w
     = record_user_details e a (PStr ''Name not provided'') (PStr ''not provided'') w
   \<and> posts (fst (call_record_user_details e [(''email'', a)] w))
     = posts w @ [pushover_request e (PStr (''Recording Name not provided with email '' @
                    format_value e a @ '' and notes not provided''))]
   \<and> (post e w (pushover_request e (PStr (''Recording Name not provided with email '' @
                    format_value e a @ '' and notes not provided''))) = Inr status \<longrightarrow>
        call_record_user_details e [(''email'', a)] w
          = (w\<lparr>posts := posts w @ [pushover_request e (PStr (''Recording Name not provided with email '' @
                    format_value e a @ '' and notes not provided''))]\<rparr>,
             Inr (PDict [(''recorded'', PStr ''ok'')])))"
proof -
  have call: "call_record_user_details e [(''email'', a)] w
     = record_user_details e a (PStr ''Name not provided'') (PStr ''not provided'') w"
    by (simp add: call_record_user_details_def unexpected_keyword_def)
  have msg_text: "''Recording '' @ format_value e (PStr ''Name not provided'') @ '' with email '' @
        format_value e a @ '' and notes '' @ format_value e (PStr ''not provided'')
      = ''Recording Name not provided with email '' @ format_value e a @ '' and notes not provided''"
    by (simp add: format_value_def)
  have sent: "posts (fst (call_record_user_details e [(''email'', a)] w))
     = posts w @ [pushover_request e (PStr (''Recording Name not provided with email '' @
                    format_value e a @ '' and notes not provided''))]"
    unfolding call by (simp only: record_user_details_world push_posts msg_text)
  have ok: "call_record_user_details e [(''email'', a)] w
          = (w\<lparr>posts := posts w @ [pushover_request e (PStr (''Recording Name not provided with email '' @
                    format_value e a @ '' and notes not provided''))]\<rparr>,
             Inr (PDict [(''recorded'', PStr ''ok'')]))"
    if "post e w (pushover_request e (PStr (''Recording Name not provided with email '' @
                    format_value e a @ '' and notes not provided''))) = Inr status"
    unfolding call using push_returns [OF that] by (simp only: record_user_details_def msg_text) simp
  from call sent ok show ?thesis by blast
qed

theorem record_user_details_defaults_witness:
  "post (example_env []) fresh_world
       (pushover_request (example_env [])
          (PStr (''Recording Name not provided with email '' @
                 format_value (example_env []) (PStr ''a@b.com'') @ '' and notes not provided'')))
     = Inr 200
   \<and> call_record_user_details (example_env []) [(''email'', PStr ''a@b.com'')] fresh_world
     = (\<lparr>posts = [\<lparr>url = ''https://api.pushover.net/1/messages.json'',
                    data = [(''user'', PStr ''user-key''), (''token'', PStr ''app-token''),
                            (''message'', PStr ''Recording Name not provided with email a@b.com and notes not provided'')]\<rparr>],
         stdout = [], requests = []\<rparr>,
        Inr (PDict [(''recorded'', PStr ''ok'')]))"
proof -
  have h: "post (example_env []) fresh_world
       (pushover_request (example_env [])
          (PStr (''Recording Name not provided with email '' @
                 format_value (example_env []) (PStr ''a@b.com'') @ '' and notes not provided'')))
     = Inr 200"
    by (simp add: example_env_def)
  from record_user_details_defaults [of "example_env []" "PStr ''a@b.com''" fresh_world 200] h
  have "call_record_user_details (example_env []) [(''email'', PStr ''a@b.com'')] fresh_world
          = (fresh_world\<lparr>posts := posts fresh_world @ [pushover_request (example_env [])
               (PStr (''Recording Name not provided with email '' @
                    format_value (example_env []) (PStr ''a@b.com'') @ '' and notes not provided''))]\<rparr>,
             Inr (PDict [(''recorded'', PStr ''ok'')]))"
    by blast
  then show ?thesis using h
    by (simp add: fresh_world_def pushover_request_def format_value_def getenv_value_def example_env_def)
qed

subsection \<open>Claim C7\<close>

text \<open>
  C7. \<open>chat\<close> enters its loop with exactly one system message holding the system prompt of
  the persona, then the prior history as it was passed, then one user message holding the
  user's message; this is the message list of the first completion request of every run
  that ends, and the same holds for an empty history and an empty message. The system
  prompt starts with the persona's name and embeds the summary and the background text.
\<close>

theorem chat_builds_working_messages:
  "chat e self user_message history w
     = chat_loop e w
         (MDict [(''role'', PStr ''system''), (''content'', PStr (system_prompt self))]
          # history @ [MDict [(''role'', PStr ''user''), (''content'', PStr user_message)]])
   \<and> (chat e self user_message history w = Some out \<longrightarrow>
        (\<exists>rest. requests (fst out)
           = requests w
             @ \<lparr>req_model = ''gpt-4o-mini'',
                 req_messages =
                   MDict [(''role'', PStr ''system''), (''content'', PStr (system_prompt self))]
                   # history @ [MDict [(''role'', PStr ''user''), (''content'', PStr user_message)]],
                 req_tools = tools\<rparr> # rest))
   \<and> chat e self [] [] w
     = chat_loop e w
         [MDict [(''role'', PStr ''system''), (''content'', PStr (system_prompt self))],
          MDict [(''role'', PStr ''user''), (''content'', PStr [])]]
   \<and> (\<exists>p. system_prompt self = ''You are acting as '' @ name self @ p)
   \<and> (\<exists>p q. system_prompt self = p @ summary self @ q)
   \<and> (\<exists>p q. system_prompt self = p @ linkedin self @ q)"
proof -
  have enter: "chat e self user_message history w
     = chat_loop e w
         (MDict [(''role'', PStr ''system''), (''content'', PStr (system_prompt self))]
          # history @ [MDict [(''role'', PStr ''user''), (''content'', PStr user_message)]])"
    for user_message history
    by (simp add: chat_def)
  have first: "\<exists>rest. requests (fst out)
           = requests w
             @ \<lparr>req_model = ''gpt-4o-mini'',
                 req_messages =
                   MDict [(''role'', PStr ''system''), (''content'', PStr (system_prompt self))]
                   # history @ [MDict [(''role'', PStr ''user''), (''content'', PStr user_message)]],
                 req_tools = tools\<rparr> # rest"
    if "chat e self user_message history w = Some out"
    using chat_loop_first_request [OF that [unfolded enter]]
    by (simp add: completion_request_def)
  have p1: "\<exists>p. system_prompt self = ''You are acting as '' @ name self @ p"
    unfolding system_prompt_def by (rule exI, rule refl)
  have p2: "\<exists>p q. system_prompt self = p @ summary self @ q"
    unfolding system_prompt_def by (rule occurs_here | rule occurs_later)+
  have p3: "\<exists>p q. system_prompt self = p @ linkedin self @ q"
    unfolding system_prompt_def by (rule occurs_here | rule occurs_later)+
  have empty: "chat e self [] [] w
     = chat_loop e w
         [MDict [(''role'', PStr ''system''), (''content'', PStr (system_prompt self))],
          MDict [(''role'', PStr ''user''), (''content'', PStr [])]]"
    using enter [of "[]" "[]"] by simp
  from enter [of user_message history] first empty p1 p2 p3 show ?thesis
    by (intro conjI impI)
qed

theorem chat_builds_working_messages_witness:
  "chat (example_env [stop_response ''Hello!'']) example_me [] [] fresh_world
     = Some (\<lparr>posts = [], stdout = [],
               requests = [\<lparr>req_model = ''gpt-4o-mini'',
                             req_messages =
                               [MDict [(''role'', PStr ''system''),
                                       (''content'', PStr (system_prompt example_me))],
                                MDict [(''role'', PStr ''user''), (''content'', PStr [])]],
                             req_tools = tools\<rparr>]\<rparr>,
             Inr (Some ''Hello!''))
   \<and> (\<exists>rest. requests \<lparr>posts = [], stdout = [],
               requests = [\<lparr>req_model = ''gpt-4o-mini'',
                             req_messages =
                               [MDict [(''role'', PStr ''system''),
                                       (''content'', PStr (system_prompt example_me))],
                                MDict [(''role'', PStr ''user''), (''content'', PStr [])]],
                             req_tools = tools\<rparr>]\<rparr>
         = requests fresh_world
           @ \<lparr>req_model = ''gpt-4o-mini'',
               req_messages =
                 MDict [(''role'', PStr ''system''), (''content'', PStr (system_prompt example_me))]
                 # [] @ [MDict [(''role'', PStr ''user''), (''content'', PStr [])]],
               req_tools = tools\<rparr> # rest)"
proof -
  let ?e = "example_env [stop_response ''Hello!'']"
  let ?msgs = "[MDict [(''role'', PStr ''system''), (''content'', PStr (system_prompt example_me))],
               MDict [(''role'', PStr ''user''), (''content'', PStr [])]]"
  let ?out = "(\<lparr>posts = [], stdout = [],
               requests = [\<lparr>req_model = ''gpt-4o-mini'', req_messages = ?msgs,
                             req_tools = tools\<rparr>]\<rparr>,
             Inr (Some ''Hello!''))"
  note inst = chat_builds_working_messages
    [where e = ?e and self = example_me and user_message = "[]" and history = "[]"
      and w = fresh_world and out = ?out]
  from inst have enter: "chat ?e example_me [] [] fresh_world = chat_loop ?e fresh_world ?msgs"
    by (elim conjE) simp
  have a: "create ?e fresh_world (completion_request ?msgs) = Inr (stop_response ''Hello!'')"
    by (simp add: example_env_def scripted_def fresh_world_def)
  have b: "choices (stop_response ''Hello!'')
      = \<lparr>finish_reason = ''stop'', message = \<lparr>content = Some ''Hello!'', tool_calls = None\<rparr>\<rparr> # []"
    by (simp add: stop_response_def)
  have "chat_iteration ?e fresh_world ?msgs = Stop (log_request fresh_world ?msgs) (Inr (Some ''Hello!''))"
    using chat_iteration_stop [OF a b] by simp
  from chat_loop_Stop [OF this] enter
  have run: "chat ?e example_me [] [] fresh_world = Some ?out"
    by (simp add: log_request_def completion_request_def fresh_world_def)
  note first = inst [THEN conjunct2, THEN conjunct1, THEN mp, OF run]
  from run first show ?thesis by simp
qed

subsection \<open>Claim C8\<close>

text \<open>
  C8. The loop of \<open>chat\<close> has no bound on its passes. A run returns exactly when, after
  some number of passes that each handled tool calls and went round again, the completion
  API gives a response whose termination reason is not \<open>tool_calls\<close>; it then returns
  the content of that response. With a completion API that asks for tool calls on every
  request \<open>chat\<close> never returns: such a run can only end by an exception, and where
  nothing raises (a model that asks for an empty list of invocations each time) it does not
  end at all. For every \<open>n\<close> there is a model that makes \<open>chat\<close> go through \<open>n\<close> passes
  of tool calls, \<open>n + 1\<close> completion requests, before it returns.
\<close>

theorem chat_loop_has_no_bound:
  "(chat_loop e w msgs = Some (w', Inr r) \<longleftrightarrow>
      (\<exists>n w1 msgs1 resp c cs.
          rounds e n w msgs = Some (w1, msgs1) \<and>
          create e w1 (completion_request msgs1) = Inr resp \<and> choices resp = c # cs \<and>
          finish_reason c \<noteq> ''tool_calls'' \<and> r = content (message c) \<and>
          w' = log_request w1 msgs1))
   \<and> ((\<forall>w r. \<exists>resp c cs. create e w r = Inr resp \<and> choices resp = c # cs \<and>
          finish_reason c = ''tool_calls'') \<longrightarrow>
        chat e self user_message history w \<noteq> Some (w', Inr r))
   \<and> chat restless_env self user_message history w = None
   \<and> (\<exists>w''. chat (patient_env n) self user_message history fresh_world
                = Some (w'', Inr (Some ''done''))
              \<and> length (requests w'') = Suc n)"
proof -
  have returns: "chat_loop e w msgs = Some (w', Inr r) \<longleftrightarrow>
      (\<exists>n w1 msgs1 resp c cs.
          rounds e n w msgs = Some (w1, msgs1) \<and>
          create e w1 (completion_request msgs1) = Inr resp \<and> choices resp = c # cs \<and>
          finish_reason c \<noteq> ''tool_calls'' \<and> r = content (message c) \<and>
          w' = log_request w1 msgs1)"
  proof
    assume "chat_loop e w msgs = Some (w', Inr r)"
    from chat_loop_rounds [OF this] obtain n w1 msgs1 where
      rn: "rounds e n w msgs = Some (w1, msgs1)"
      and st: "chat_iteration e w1 msgs1 = Stop w' (Inr r)"
      by auto
    from st obtain resp c cs where "create e w1 (completion_request msgs1) = Inr resp"
      and "choices resp = c # cs" and "finish_reason c \<noteq> ''tool_calls''"
      and "r = content (message c)" and "w' = log_request w1 msgs1"
      unfolding chat_iteration_returns by blast
    with rn show "\<exists>n w1 msgs1 resp c cs.
          rounds e n w msgs = Some (w1, msgs1) \<and>
          create e w1 (completion_request msgs1) = Inr resp \<and> choices resp = c # cs \<and>
          finish_reason c \<noteq> ''tool_calls'' \<and> r = content (message c) \<and>
          w' = log_request w1 msgs1"
      by blast
  next
    assume "\<exists>n w1 msgs1 resp c cs.
          rounds e n w msgs = Some (w1, msgs1) \<and>
          create e w1 (completion_request msgs1) = Inr resp \<and> choices resp = c # cs \<and>
          finish_reason c \<noteq> ''tool_calls'' \<and> r = content (message c) \<and>
          w' = log_request w1 msgs1"
    then obtain n w1 msgs1 resp c cs where rn: "rounds e n w msgs = Some (w1, msgs1)"
      and a: "create e w1 (completion_request msgs1) = Inr resp" and b: "choices resp = c # cs"
      and c: "finish_reason c \<noteq> ''tool_calls''" and r: "r = content (message c)"
      and w': "w' = log_request w1 msgs1"
      by blast
    from chat_loop_Stop [OF chat_iteration_stop [OF a b c]] rounds_chat_loop [OF rn] r w'
    show "chat_loop e w msgs = Some (w', Inr r)" by simp
  qed
  have never: "chat e self user_message history w \<noteq> Some (w', Inr r)"
    if always: "\<forall>w r. \<exists>resp c cs. create e w r = Inr resp \<and> choices resp = c # cs \<and>
          finish_reason c = ''tool_calls''"
  proof
    assume "chat e self user_message history w = Some (w', Inr r)"
    then have "chat_loop e w
        ([MDict [(''role'', PStr ''system''), (''content'', PStr (system_prompt self))]]
         @ history @ [MDict [(''role'', PStr ''user''), (''content'', PStr user_message)]])
      = Some (w', Inr r)"
      by (simp add: chat_def)
    from chat_loop_always_tool_calls [OF always this] show False by simp
  qed
  have forever: "chat restless_env self user_message history w = None"
    by (simp add: chat_def restless_diverges)
  have any: "\<exists>w''. chat (patient_env n) self user_message history fresh_world
                = Some (w'', Inr (Some ''done''))
              \<and> length (requests w'') = Suc n"
    unfolding chat_def
    by (rule patient_run [where k = "n - length (requests fresh_world)"])
      (simp_all add: fresh_world_def)
  from returns never forever any show ?thesis by (intro conjI impI)
qed

theorem chat_loop_has_no_bound_witness:
  "(\<forall>w r. \<exists>resp c cs. create restless_env w r = Inr resp \<and> choices resp = c # cs \<and>
        finish_reason c = ''tool_calls'')
   \<and> chat restless_env example_me ''hi'' [] fresh_world \<noteq> Some (fresh_world, Inr (Some ''done''))
   \<and> chat restless_env example_me ''hi'' [] fresh_world = None
   \<and> (\<exists>w''. chat (patient_env 3) example_me ''hi'' [] fresh_world = Some (w'', Inr (Some ''done''))
          \<and> length (requests w'') = Suc 3)"
proof -
  have always: "\<forall>w r. \<exists>resp c cs. create restless_env w r = Inr resp \<and> choices resp = c # cs \<and>
        finish_reason c = ''tool_calls''"
    by (simp add: restless_env_def tool_response_def)
  note inst = chat_loop_has_no_bound
    [where e = restless_env and self = example_me and user_message = "''hi''" and history = "[]"
      and w = fresh_world and w' = fresh_world and r = "Some ''done''" and n = 3]
  note never = inst [THEN conjunct2, THEN conjunct1, THEN mp, OF always]
  note forever = inst [THEN conjunct2, THEN conjunct2, THEN conjunct1]
  note any = inst [THEN conjunct2, THEN conjunct2, THEN conjunct2]
  from always never forever any show ?thesis by (intro conjI)
qed

subsection \<open>Claim C9\<close>

text \<open>
  C9. When the arguments of an invocation do not deserialise, nothing catches the error:
  the loop body raises it before it prints or looks the name up, the tool-handling step
  raises it as soon as the invocations before this one are done, and \<open>chat\<close> ends with
  it. No empty argument set is substituted and no further completion request is issued.
\<close>

theorem malformed_arguments_abort_chat:
  assumes "loads e (function_arguments tc) = Inl err"
  shows "tool_result e tc w = (w, Inl err)
       \<and> handle_one e tc w = (w, Inl err)
       \<and> (tool_loop e before [] w = (w1, Inr rs) \<longrightarrow>
            handle_tool_call e (Some (before @ tc # rest)) w = (w1, Inl err))
       \<and> (create e w (completion_request msgs) = Inr resp \<and> choices resp = c # cs \<and>
          finish_reason c = ''tool_calls'' \<and> tool_calls (message c) = Some (before @ tc # rest) \<and>
          tool_loop e before [] (log_request w msgs) = (w1, Inr rs) \<longrightarrow>
            chat_loop e w msgs = Some (w1, Inl err) \<and>
            requests w1 = requests w @ [completion_request msgs])"
proof -
  have tr: "tool_result e tc w' = (w', Inl err)" for w'
    using assms by (simp add: tool_result_def)
  have one: "handle_one e tc w = (w, Inl err)"
    using tr [of w] by (rule handle_one_raises)
  have step: "handle_tool_call e (Some (before @ tc # rest)) w = (w1, Inl err)"
    if "tool_loop e before [] w = (w1, Inr rs)"
    using that tr [of w1] by (rule handle_tool_call_raises)
  have run: "chat_loop e w msgs = Some (w1, Inl err) \<and>
      requests w1 = requests w @ [completion_request msgs]"
    if h: "create e w (completion_request msgs) = Inr resp \<and> choices resp = c # cs \<and>
          finish_reason c = ''tool_calls'' \<and> tool_calls (message c) = Some (before @ tc # rest) \<and>
          tool_loop e before [] (log_request w msgs) = (w1, Inr rs)"
  proof -
    from h have a: "create e w (completion_request msgs) = Inr resp" and b: "choices resp = c # cs"
      and c: "finish_reason c = ''tool_calls''"
      and d: "tool_calls (message c) = Some (before @ tc # rest)"
      and f: "tool_loop e before [] (log_request w msgs) = (w1, Inr rs)"
      by simp_all
    have "requests w1 = requests (log_request w msgs)"
      using tool_loop_requests [of e before "[]" "log_request w msgs"] f by simp
    with chat_loop_tool_raises [OF a b c d f tr [of w1]] show ?thesis
      by (simp add: log_request_requests)
  qed
  from tr [of w] one step run show ?thesis by blast
qed

theorem malformed_arguments_abort_chat_witness:
  "loads (example_env [tool_response [weather_call, cut_off_call], stop_response ''bye''])
      (function_arguments cut_off_call) = Inl JSONDecodeError
   \<and> handle_one (example_env [tool_response [weather_call, cut_off_call], stop_response ''bye''])
        cut_off_call fresh_world = (fresh_world, Inl JSONDecodeError)
   \<and> chat_loop (example_env [tool_response [weather_call, cut_off_call], stop_response ''bye''])
        fresh_world []
      = Some (\<lparr>posts = [], stdout = [''Tool called: lookup_weather''],
               requests = [completion_request []]\<rparr>, Inl JSONDecodeError)"
proof -
  let ?e = "example_env [tool_response [weather_call, cut_off_call], stop_response ''bye'']"
  let ?c = "\<lparr>finish_reason = ''tool_calls'',
              message = \<lparr>content = None, tool_calls = Some [weather_call, cut_off_call]\<rparr>\<rparr>"
  let ?w1 = "\<lparr>posts = [], stdout = [''Tool called: lookup_weather''],
               requests = [completion_request []]\<rparr>"
  have h: "loads ?e (function_arguments cut_off_call) = Inl JSONDecodeError"
    by (simp add: example_env_def example_loads_def cut_off_call_def)
  have a: "create ?e fresh_world (completion_request []) = Inr (tool_response [weather_call, cut_off_call])"
    by (simp add: example_env_def scripted_def fresh_world_def)
  have b: "choices (tool_response [weather_call, cut_off_call]) = ?c # []"
    by (simp add: tool_response_def)
  have c: "finish_reason ?c = ''tool_calls''" by simp
  have d: "tool_calls (message ?c) = Some ([weather_call] @ cut_off_call # [])" by simp
  have f: "tool_loop ?e [weather_call] [] (log_request fresh_world []) = (?w1, Inr [tool_message ''{}'' ''call_3''])"
    by (simp add: handle_one_def tool_result_def example_env_def example_loads_def weather_call_def
        globals_get_def py_globals_def run_as_main_def print_line_def log_request_def fresh_world_def)
  from malformed_arguments_abort_chat [OF h, of fresh_world "[weather_call]" ?w1
      "[tool_message ''{}'' ''call_3'']" "[]" "[]" "tool_response [weather_call, cut_off_call]" ?c "[]"]
    a b c d f
  have "handle_one ?e cut_off_call fresh_world = (fresh_world, Inl JSONDecodeError)
      \<and> chat_loop ?e fresh_world [] = Some (?w1, Inl JSONDecodeError)"
    by blast
  with h show ?thesis by simp
qed

subsection \<open>Claim C10\<close>

text \<open>
  C10, as the claim states it, fails in its last part: in a script run the module's
  globals bind \<open>__spec__\<close> to \<open>None\<close>, and an invocation of that name gives the
  empty dict although the name is bound; nothing is called.
\<close>

theorem falsy_global_counterexample:
  "globals_get (example_env []) (function_name spec_call) = Some (Data PNone)
   \<and> loads (example_env []) (function_arguments spec_call) = Inr (PDict [])
   \<and> tool_result (example_env []) spec_call fresh_world
       = (\<lparr>posts = [], stdout = [''Tool called: __spec__''], requests = []\<rparr>, Inr (PDict []))
   \<and> call_object (example_env []) (Data PNone) (PDict [])
         \<lparr>posts = [], stdout = [''Tool called: __spec__''], requests = []\<rparr>
       = (\<lparr>posts = [], stdout = [''Tool called: __spec__''], requests = []\<rparr>, Inl TypeError)"
proof (intro conjI)
  show g: "globals_get (example_env []) (function_name spec_call) = Some (Data PNone)"
    by (simp add: spec_call_def example_spec)
  show l: "loads (example_env []) (function_arguments spec_call) = Inr (PDict [])"
    by (simp add: example_env_def example_loads_def spec_call_def)
  have "no_tool (example_env []) (function_name spec_call)"
    by (simp add: no_tool_def g)
  from tool_result_no_tool [OF l this]
  show "tool_result (example_env []) spec_call fresh_world
       = (\<lparr>posts = [], stdout = [''Tool called: __spec__''], requests = []\<rparr>, Inr (PDict []))"
    by (simp add: print_line_def fresh_world_def spec_call_def)
  show "call_object (example_env []) (Data PNone) (PDict [])
         \<lparr>posts = [], stdout = [''Tool called: __spec__''], requests = []\<rparr>
       = (\<lparr>posts = [], stdout = [''Tool called: __spec__''], requests = []\<rparr>, Inl TypeError)"
    by (simp add: call_object_def)
qed

text \<open>
  C10, amended. The dispatcher resolves the tool name in the global symbol table of the
  module, not in the list \<open>tools\<close>. Once the arguments are deserialised, a name bound to
  a true object has that object called with them, whatever the object is: the module's
  three functions and its class with the arguments bound to their parameters, an imported
  callable as it is, and a TypeError for a module, for data, and for arguments that are no
  dict. A name the table does not bind, and a name it binds to a false object, gives the
  empty dict without a call. Every name the module's text binds is bound to a true object,
  so are \<open>__doc__\<close>, \<open>__builtins__\<close> and \<open>__loader__\<close>; \<open>push\<close>, \<open>json\<close> and
  \<open>os\<close> are among them and are no registry tools.
\<close>

theorem dispatch_by_module_globals:
  "(loads e (function_arguments tc) = Inr args \<and>
    globals_get e (function_name tc) = Some obj \<and> truthy obj \<longrightarrow>
      tool_result e tc w
        = call_object e obj args (print_line (''Tool called: '' @ function_name tc) w))
   \<and> (loads e (function_arguments tc) = Inr args \<and>
      globals_get e (function_name tc) = Some obj \<and> \<not> truthy obj \<longrightarrow>
        tool_result e tc w
          = (print_line (''Tool called: '' @ function_name tc) w, Inr (PDict [])))
   \<and> (loads e (function_arguments tc) = Inr args \<and>
      globals_get e (function_name tc) = None \<longrightarrow>
        tool_result e tc w
          = (print_line (''Tool called: '' @ function_name tc) w, Inr (PDict [])))
   \<and> map (globals_get e)
         [''__doc__'', ''__builtins__'', ''__loader__'', ''json'', ''os'', ''load_dotenv'',
          ''ChatInterface'', ''OpenAI'', ''PdfReader'', ''post'', ''push'', ''record_user_details'',
          ''record_unknown_question'', ''record_user_details_json'',
          ''record_unknown_question_json'', ''tools'', ''Me'']
       = [Some (Data (PStr ''Interactive AI Resume and CV chatbot..'')), Some (Module ''builtins''),
          Some (Data (PObj ''SourceFileLoader'')), Some (Module ''json''), Some (Module ''os''),
          Some (Imported ''load_dotenv''), Some (Imported ''ChatInterface''),
          Some (Imported ''OpenAI''), Some (Imported ''PdfReader''), Some (Imported ''post''),
          Some FnPush, Some FnRecordUserDetails, Some FnRecordUnknownQuestion,
          Some (Data record_user_details_json), Some (Data record_unknown_question_json),
          Some (Data tools), Some ClassMe]
   \<and> globals_get e ''__name__'' = Some (Data (PStr (name_of_module e)))
   \<and> globals_get e ''__file__'' = Some (Data (PStr (file_of_module e)))
   \<and> (name_of_module e = ''__main__'' \<longrightarrow>
        map (globals_get e) [''name'', ''cv_pdf'', ''summary_txt'']
          = [Some (Data (PStr ''Carlos Bazaga'')), Some (Data (PStr ''me/linkedin.pdf'')),
             Some (Data (PStr ''me/summary.txt''))])
   \<and> list_all truthy
         [Data (PStr ''Interactive AI Resume and CV chatbot..''), Module ''builtins'',
          Data (PObj ''SourceFileLoader''), Module m, Imported f, FnPush, FnRecordUserDetails,
          FnRecordUnknownQuestion, Data record_user_details_json,
          Data record_unknown_question_json, Data tools, ClassMe, Data (PStr ''Carlos Bazaga''),
          Data (PStr ''me/linkedin.pdf''), Data (PStr ''me/summary.txt'')]
   \<and> truthy (Data v) = truthy_value v
   \<and> ''push'' \<notin> set registry_names \<and> ''json'' \<notin> set registry_names
   \<and> ''os'' \<notin> set registry_names
   \<and> call_object e FnPush (PDict kwargs) w = call_push e kwargs w
   \<and> call_object e FnRecordUserDetails (PDict kwargs) w = call_record_user_details e kwargs w
   \<and> call_object e FnRecordUnknownQuestion (PDict kwargs) w
       = call_record_unknown_question e kwargs w
   \<and> call_object e ClassMe (PDict kwargs) w = call_Me e kwargs w
   \<and> call_object e (Imported f) (PDict kwargs) w = (w, call_imported e w f kwargs)
   \<and> call_object e (Module m) (PDict kwargs) w = (w, Inl TypeError)
   \<and> call_object e (Data v) (PDict kwargs) w = (w, Inl TypeError)
   \<and> ((\<forall>kw. args \<noteq> PDict kw) \<longrightarrow> call_object e obj args w = (w, Inl TypeError))
   \<and> call_push e [(''text'', t)] w = push e t w
   \<and> call_record_unknown_question e [(''question'', t)] w = record_unknown_question e t w
   \<and> call_Me e [(''name'', t), (''cv_pdf_path'', t1), (''summary_path'', t2)] w
       = (w, call_imported e w ''Me'' [(''name'', t), (''cv_pdf_path'', t1), (''summary_path'', t2)])
   \<and> call_push e [] w = (w, Inl TypeError)
   \<and> call_push e [(''text'', t), (''title'', t1)] w = (w, Inl TypeError)
   \<and> call_record_unknown_question e [] w = (w, Inl TypeError)
   \<and> call_record_unknown_question e [(''question'', t), (''topic'', t1)] w = (w, Inl TypeError)
   \<and> call_record_user_details e [(''name'', t)] w = (w, Inl TypeError)
   \<and> call_record_user_details e [(''email'', t), (''phone'', t1)] w = (w, Inl TypeError)
   \<and> call_record_user_details e [(''email'', t), (''name'', t1), (''notes'', t2)] w
       = record_user_details e t t1 t2 w
   \<and> call_Me e [] w = (w, Inl TypeError)
   \<and> call_Me e [(''name'', t), (''cv_pdf_path'', t1)] w = (w, Inl TypeError)
   \<and> call_Me e [(''name'', t), (''cv_pdf_path'', t1), (''summary_path'', t2), (''model'', t3)] w
       = (w, Inl TypeError)"
proof -
  have truthy_call: "loads e (function_arguments tc) = Inr args \<and>
        globals_get e (function_name tc) = Some obj \<and> truthy obj \<longrightarrow>
      tool_result e tc w
        = call_object e obj args (print_line (''Tool called: '' @ function_name tc) w)"
    by (simp add: tool_result_truthy)
  have falsy: "loads e (function_arguments tc) = Inr args \<and>
        globals_get e (function_name tc) = Some obj \<and> \<not> truthy obj \<longrightarrow>
      tool_result e tc w
          = (print_line (''Tool called: '' @ function_name tc) w, Inr (PDict []))"
    by (simp add: tool_result_no_tool no_tool_def)
  have unbound: "loads e (function_arguments tc) = Inr args \<and>
        globals_get e (function_name tc) = None \<longrightarrow>
      tool_result e tc w
          = (print_line (''Tool called: '' @ function_name tc) w, Inr (PDict []))"
    by (simp add: tool_result_no_tool no_tool_def)
  have table: "map (globals_get e)
         [''__doc__'', ''__builtins__'', ''__loader__'', ''json'', ''os'', ''load_dotenv'',
          ''ChatInterface'', ''OpenAI'', ''PdfReader'', ''post'', ''push'', ''record_user_details'',
          ''record_unknown_question'', ''record_user_details_json'',
          ''record_unknown_question_json'', ''tools'', ''Me'']
       = [Some (Data (PStr ''Interactive AI Resume and CV chatbot..'')), Some (Module ''builtins''),
          Some (Data (PObj ''SourceFileLoader'')), Some (Module ''json''), Some (Module ''os''),
          Some (Imported ''load_dotenv''), Some (Imported ''ChatInterface''),
          Some (Imported ''OpenAI''), Some (Imported ''PdfReader''), Some (Imported ''post''),
          Some FnPush, Some FnRecordUserDetails, Some FnRecordUnknownQuestion,
          Some (Data record_user_details_json), Some (Data record_unknown_question_json),
          Some (Data tools), Some ClassMe]"
    by (simp add: globals_get_def py_globals_def)
  have nm: "globals_get e ''__name__'' = Some (Data (PStr (name_of_module e)))"
    by (simp add: globals_get_def py_globals_def)
  have fl: "globals_get e ''__file__'' = Some (Data (PStr (file_of_module e)))"
    by (simp add: globals_get_def py_globals_def)
  have main: "name_of_module e = ''__main__'' \<longrightarrow>
      map (globals_get e) [''name'', ''cv_pdf'', ''summary_txt'']
          = [Some (Data (PStr ''Carlos Bazaga'')), Some (Data (PStr ''me/linkedin.pdf'')),
             Some (Data (PStr ''me/summary.txt''))]"
    by (simp add: globals_get_def py_globals_def run_as_main_def)
  have true: "list_all truthy
         [Data (PStr ''Interactive AI Resume and CV chatbot..''), Module ''builtins'',
          Data (PObj ''SourceFileLoader''), Module m, Imported f, FnPush, FnRecordUserDetails,
          FnRecordUnknownQuestion, Data record_user_details_json,
          Data record_unknown_question_json, Data tools, ClassMe, Data (PStr ''Carlos Bazaga''),
          Data (PStr ''me/linkedin.pdf''), Data (PStr ''me/summary.txt'')]"
    by (simp add: record_user_details_json_def record_unknown_question_json_def tools_def)
  have data: "truthy (Data v) = truthy_value v" by simp
  have names: "''push'' \<notin> set registry_names \<and> ''json'' \<notin> set registry_names
      \<and> ''os'' \<notin> set registry_names"
    by (simp add: registry_names_eq)
  have k1: "call_object e FnPush (PDict kwargs) w = call_push e kwargs w"
    by (simp add: call_object_def)
  have k2: "call_object e FnRecordUserDetails (PDict kwargs) w = call_record_user_details e kwargs w"
    by (simp add: call_object_def)
  have k3: "call_object e FnRecordUnknownQuestion (PDict kwargs) w
       = call_record_unknown_question e kwargs w"
    by (simp add: call_object_def)
  have k4: "call_object e ClassMe (PDict kwargs) w = call_Me e kwargs w"
    by (simp add: call_object_def)
  have k5: "call_object e (Imported f) (PDict kwargs) w = (w, call_imported e w f kwargs)"
    by (simp add: call_object_def)
  have k6: "call_object e (Module m) (PDict kwargs) w = (w, Inl TypeError)"
    by (simp add: call_object_def)
  have k7: "call_object e (Data v) (PDict kwargs) w = (w, Inl TypeError)"
    by (simp add: call_object_def)
  have k8: "(\<forall>kw. args \<noteq> PDict kw) \<longrightarrow> call_object e obj args w = (w, Inl TypeError)"
    by (cases args) (simp_all add: call_object_def)
  have b1: "call_push e [(''text'', t)] w = push e t w"
    by (simp add: call_push_def unexpected_keyword_def)
  have b2: "call_record_unknown_question e [(''question'', t)] w = record_unknown_question e t w"
    by (simp add: call_record_unknown_question_def unexpected_keyword_def)
  have b3: "call_Me e [(''name'', t), (''cv_pdf_path'', t1), (''summary_path'', t2)] w
       = (w, call_imported e w ''Me'' [(''name'', t), (''cv_pdf_path'', t1), (''summary_path'', t2)])"
    by (simp add: call_Me_def unexpected_keyword_def)
  have b4: "call_push e [] w = (w, Inl TypeError)"
    by (simp add: call_push_def unexpected_keyword_def)
  have b5: "call_Me e [] w = (w, Inl TypeError)"
    by (simp add: call_Me_def unexpected_keyword_def)
  have b6: "call_push e [(''text'', t), (''title'', t1)] w = (w, Inl TypeError)"
    by (simp add: call_push_def unexpected_keyword_def)
  have b7: "call_record_unknown_question e [] w = (w, Inl TypeError)"
    by (simp add: call_record_unknown_question_def unexpected_keyword_def)
  have b8: "call_record_unknown_question e [(''question'', t), (''topic'', t1)] w = (w, Inl TypeError)"
    by (simp add: call_record_unknown_question_def unexpected_keyword_def)
  have b9: "call_record_user_details e [(''name'', t)] w = (w, Inl TypeError)"
    by (simp add: call_record_user_details_def unexpected_keyword_def)
  have b10: "call_record_user_details e [(''email'', t), (''phone'', t1)] w = (w, Inl TypeError)"
    by (simp add: call_record_user_details_def unexpected_keyword_def)
  have b11: "call_record_user_details e [(''email'', t), (''name'', t1), (''notes'', t2)] w
       = record_user_details e t t1 t2 w"
    by (simp add: call_record_user_details_def unexpected_keyword_def)
  have b12: "call_Me e [(''name'', t), (''cv_pdf_path'', t1)] w = (w, Inl TypeError)"
    by (simp add: call_Me_def unexpected_keyword_def)
  have b13: "call_Me e [(''name'', t), (''cv_pdf_path'', t1), (''summary_path'', t2), (''model'', t3)] w
       = (w, Inl TypeError)"
    by (simp add: call_Me_def unexpected_keyword_def)
  show ?thesis
    by (intro conjI truthy_call falsy unbound table nm fl main true data
        names [THEN conjunct1] names [THEN conjunct2, THEN conjunct1]
        names [THEN conjunct2, THEN conjunct2] k1 k2 k3 k4 k5 k6 k7 k8 b1 b2 b3 b4 b5 b6 b7 b8
        b9 b10 b11 b12 b13)
qed

theorem dispatch_by_module_globals_witness:
  "loads (example_env []) (function_arguments json_call) = Inr (PDict [])
   \<and> globals_get (example_env []) (function_name json_call) = Some (Module ''json'')
   \<and> truthy (Module ''json'')
   \<and> tool_result (example_env []) json_call fresh_world
       = (\<lparr>posts = [], stdout = [''Tool called: json''], requests = []\<rparr>, Inl TypeError)
   \<and> loads (example_env []) (function_arguments weather_call) = Inr (PDict [])
   \<and> globals_get (example_env []) (function_name weather_call) = None
   \<and> tool_result (example_env []) weather_call fresh_world
       = (\<lparr>posts = [], stdout = [''Tool called: lookup_weather''], requests = []\<rparr>,
          Inr (PDict []))
   \<and> loads (example_env []) (function_arguments spec_call) = Inr (PDict [])
   \<and> globals_get (example_env []) (function_name spec_call) = Some (Data PNone)
   \<and> \<not> truthy (Data PNone)
   \<and> tool_result (example_env []) spec_call fresh_world
       = (\<lparr>posts = [], stdout = [''Tool called: __spec__''], requests = []\<rparr>, Inr (PDict []))
   \<and> name_of_module (example_env []) = ''__main__''
   \<and> map (globals_get (example_env [])) [''name'', ''cv_pdf'', ''summary_txt'']
       = [Some (Data (PStr ''Carlos Bazaga'')), Some (Data (PStr ''me/linkedin.pdf'')),
          Some (Data (PStr ''me/summary.txt''))]"
proof -
  let ?e = "example_env []"
  have l1: "loads ?e (function_arguments json_call) = Inr (PDict [])"
    by (simp add: example_env_def example_loads_def json_call_def)
  have g1: "globals_get ?e (function_name json_call) = Some (Module ''json'')"
    by (simp add: json_call_def globals_json)
  have t1: "truthy (Module ''json'')" by simp
  have l2: "loads ?e (function_arguments weather_call) = Inr (PDict [])"
    by (simp add: example_env_def example_loads_def weather_call_def)
  have g2: "globals_get ?e (function_name weather_call) = None"
    by (simp add: weather_call_def globals_get_def py_globals_def run_as_main_def example_env_def)
  have l3: "loads ?e (function_arguments spec_call) = Inr (PDict [])"
    by (simp add: example_env_def example_loads_def spec_call_def)
  have g3: "globals_get ?e (function_name spec_call) = Some (Data PNone)"
    by (simp add: spec_call_def example_spec)
  have t3: "\<not> truthy (Data PNone)" by simp
  have nm: "name_of_module ?e = ''__main__''" by (simp add: example_env_def)
  note i1 = dispatch_by_module_globals
    [where e = ?e and tc = json_call and args = "PDict []" and obj = "Module ''json''"
      and w = fresh_world, THEN conjunct1]
  have r1: "tool_result ?e json_call fresh_world
        = call_object ?e (Module ''json'') (PDict [])
            (print_line (''Tool called: '' @ function_name json_call) fresh_world)"
    by (rule mp [OF i1]) (intro conjI l1 g1 t1)
  note i2 = dispatch_by_module_globals
    [where e = ?e and tc = weather_call and args = "PDict []" and w = fresh_world,
      THEN conjunct2, THEN conjunct2, THEN conjunct1]
  have r2: "tool_result ?e weather_call fresh_world
          = (print_line (''Tool called: '' @ function_name weather_call) fresh_world, Inr (PDict []))"
    by (rule mp [OF i2]) (intro conjI l2 g2)
  note i3 = dispatch_by_module_globals
    [where e = ?e and tc = spec_call and args = "PDict []" and obj = "Data PNone"
      and w = fresh_world, THEN conjunct2, THEN conjunct1]
  have r3: "tool_result ?e spec_call fresh_world
          = (print_line (''Tool called: '' @ function_name spec_call) fresh_world, Inr (PDict []))"
    by (rule mp [OF i3]) (intro conjI l3 g3 t3)
  note i4 = dispatch_by_module_globals
    [where e = ?e, THEN conjunct2, THEN conjunct2, THEN conjunct2, THEN conjunct2,
      THEN conjunct2, THEN conjunct2, THEN conjunct1]
  have r4: "map (globals_get ?e) [''name'', ''cv_pdf'', ''summary_txt'']
       = [Some (Data (PStr ''Carlos Bazaga'')), Some (Data (PStr ''me/linkedin.pdf'')),
          Some (Data (PStr ''me/summary.txt''))]"
    by (rule mp [OF i4]) (rule nm)
  have c1: "call_object ?e (Module ''json'') (PDict [])
            (print_line (''Tool called: '' @ function_name json_call) fresh_world)
        = (\<lparr>posts = [], stdout = [''Tool called: json''], requests = []\<rparr>, Inl TypeError)"
    by (simp add: call_object_def print_line_def fresh_world_def json_call_def)
  have c2: "print_line (''Tool called: '' @ function_name weather_call) fresh_world
        = \<lparr>posts = [], stdout = [''Tool called: lookup_weather''], requests = []\<rparr>"
    by (simp add: print_line_def fresh_world_def weather_call_def)
  have c3: "print_line (''Tool called: '' @ function_name spec_call) fresh_world
        = \<lparr>posts = [], stdout = [''Tool called: __spec__''], requests = []\<rparr>"
    by (simp add: print_line_def fresh_world_def spec_call_def)
  show ?thesis
    by (intro conjI l1 g1 t1 l2 g2 l3 g3 t3 nm r4 r1 [unfolded c1] r2 [unfolded c2] r3 [unfolded c3])
qed

end
